theory Spec2Isabelle
  imports Main
begin

section \<open>JavaScript values used by the plugin\<close>

text \<open>
  Strings are lists of characters (code units); a value of type \<open>string | undefined\<close> is a
  \<open>string option\<close>. A string is truthy when it is not empty. An exception is a value:
  every function that can throw returns \<open>js_error + 'a\<close>, with \<open>Inl\<close> for the throw.
\<close>

datatype js_error =
    Error string
  | TypeError string
  | RangeError string
  | SyntaxError string

definition truthy :: "string option \<Rightarrow> bool" where
  "truthy v = (case v of None \<Rightarrow> False | Some s \<Rightarrow> s \<noteq> [])"

text \<open>\<open>String.prototype.indexOf(pat)\<close>: the position of the first occurrence, if any.\<close>

fun indexOf :: "string \<Rightarrow> string \<Rightarrow> nat option" where
  "indexOf pat [] = (if pat = [] then Some 0 else None)"
| "indexOf pat (x # xs) =
     (if take (length pat) (x # xs) = pat then Some 0
      else map_option Suc (indexOf pat xs))"

text \<open>
  The replacement text of \<open>String.prototype.replace\<close> with a string pattern is expanded:
  \<open>$$\<close> is a dollar sign, \<open>$&\<close> the matched text, \<open>$`\<close> the text before the match and
  \<open>$'\<close> the text after it. A string pattern has no capture groups, so \<open>$1\<close> and the
  like stay as they are.
\<close>

fun getSubstitution :: "string \<Rightarrow> string \<Rightarrow> string \<Rightarrow> string \<Rightarrow> string" where
  "getSubstitution matched preceding following [] = []"
| "getSubstitution matched preceding following [c] = [c]"
| "getSubstitution matched preceding following (c # d # rest) =
     (if c = CHR ''$'' then
        (if d = CHR ''$'' then CHR ''$'' # getSubstitution matched preceding following rest
         else if d = CHR ''&'' then matched @ getSubstitution matched preceding following rest
         else if d = CHR 0x60 then preceding @ getSubstitution matched preceding following rest
         else if d = CHR 0x27 then following @ getSubstitution matched preceding following rest
         else c # getSubstitution matched preceding following (d # rest))
      else c # getSubstitution matched preceding following (d # rest))"

text \<open>
  \<open>s.replace(pat, repl)\<close> with a string pattern replaces the first occurrence only and
  returns \<open>s\<close> when there is none.
\<close>

definition js_replace :: "string \<Rightarrow> string \<Rightarrow> string \<Rightarrow> string" where
  "js_replace s pat repl =
     (case indexOf pat s of
        None \<Rightarrow> s
      | Some i \<Rightarrow>
          take i s
          @ getSubstitution pat (take i s) (drop (i + length pat) s) repl
          @ drop (i + length pat) s)"


section \<open>Node's \<open>path.join\<close>\<close>

text \<open>
  \<open>path.join\<close> is part of the Node runtime, not of the plugin. The POSIX flavour is modelled
  here from its documentation: the non-empty arguments are joined with \<open>/\<close> and the result
  is normalised; empty and \<open>.\<close> segments are dropped, \<open>..\<close> removes the segment before it
  (and is kept at the front of a relative path), a trailing \<open>/\<close> is kept, and the empty
  path is \<open>.\<close>. On Windows the same function writes a backslash for each \<open>/\<close>.
\<close>

fun split_path :: "string \<Rightarrow> string list" where
  "split_path [] = [[]]"
| "split_path (c # cs) =
     (if c = CHR ''/'' then [] # split_path cs
      else (case split_path cs of
              [] \<Rightarrow> [[c]]
            | seg # segs \<Rightarrow> (c # seg) # segs))"

text \<open>The segments kept so far are held in reverse order.\<close>

fun normalizeSegments :: "bool \<Rightarrow> string list \<Rightarrow> string list \<Rightarrow> string list" where
  "normalizeSegments allowAboveRoot res [] = rev res"
| "normalizeSegments allowAboveRoot res (seg # segs) =
     (if seg = [] \<or> seg = ''.'' then normalizeSegments allowAboveRoot res segs
      else if seg = ''..'' then
        (case res of
           [] \<Rightarrow>
             normalizeSegments allowAboveRoot (if allowAboveRoot then [''..''] else []) segs
         | r # rs \<Rightarrow>
             if r = ''..'' then
               normalizeSegments allowAboveRoot
                 (if allowAboveRoot then ''..'' # r # rs else r # rs) segs
             else normalizeSegments allowAboveRoot rs segs)
      else normalizeSegments allowAboveRoot (seg # res) segs)"

fun join_with :: "string \<Rightarrow> string list \<Rightarrow> string" where
  "join_with sep [] = []"
| "join_with sep [s] = s"
| "join_with sep (s # t # ts) = s @ sep @ join_with sep (t # ts)"

definition path_normalize :: "string \<Rightarrow> string" where
  "path_normalize p =
     (if p = [] then ''.''
      else
        let isAbsolute = (hd p = CHR ''/'');
            trailingSeparator = (last p = CHR ''/'');
            body = join_with ''/'' (normalizeSegments (\<not> isAbsolute) [] (split_path p))
        in if body = [] then
             (if isAbsolute then ''/'' else if trailingSeparator then ''./'' else ''.'')
           else
             (if isAbsolute then ''/'' else []) @ body
             @ (if trailingSeparator then ''/'' else []))"

definition path_join :: "string list \<Rightarrow> string" where
  "path_join args =
     (let joined = join_with ''/'' (filter (\<lambda>a. a \<noteq> []) args)
      in if joined = [] then ''.'' else path_normalize joined)"


section \<open>File placement: \<open>saveFileToStack\<close>\<close>

text \<open>
  The file system belongs to the host. It is a state of any type \<open>'fs\<close> with the three
  calls the function makes; \<open>mkdirSync\<close> and \<open>writeFileSync\<close> return the new state and
  the error they threw, if any.
\<close>

record 'fs node_fs =
  existsSync :: "'fs \<Rightarrow> string \<Rightarrow> bool"
  mkdirSync :: "'fs \<Rightarrow> string \<Rightarrow> js_error option \<times> 'fs"
  writeFileSync :: "'fs \<Rightarrow> string \<Rightarrow> string \<Rightarrow> js_error option \<times> 'fs"

definition isDigit :: "char \<Rightarrow> bool" where
  "isDigit c = (c \<in> set ''0123456789'')"

text \<open>
  \<open>filename.match(/^(\d{4})(\d{2})\d{2}/)\<close>: eight digits at the start of the name; the
  result holds the two groups, the first four digits and the next two.
\<close>

definition dateMatch :: "string \<Rightarrow> (string \<times> string) option" where
  "dateMatch filename =
     (if 8 \<le> length filename \<and> list_all isDigit (take 8 filename)
      then Some (take 4 filename, take 2 (drop 4 filename))
      else None)"

definition invalidDate :: js_error where
  "invalidDate = Error ''Filename does not contain a valid date.''"

text \<open>The subfolder computed by lines 101 to 109, or nothing when the function throws there.\<close>

definition resolveSubfolder :: "string \<Rightarrow> string \<Rightarrow> string option" where
  "resolveSubfolder subfolderStructure filename =
     (let fullSubfolderStructure = path_join [''Chronological'', ''Email'', subfolderStructure]
      in case dateMatch filename of
           None \<Rightarrow> None
         | Some (year, month) \<Rightarrow>
             Some (js_replace (js_replace fullSubfolderStructure ''YYYY'' year)
                     ''YYYY-MM'' (year @ ''-'' @ month)))"

definition saveFileToStack ::
  "'fs node_fs \<Rightarrow> 'fs \<Rightarrow> string \<Rightarrow> string \<Rightarrow> string \<Rightarrow> string \<Rightarrow> (js_error + string) \<times> 'fs" where
  "saveFileToStack os fs vaultRoot subfolderStructure filename content =
     (case resolveSubfolder subfolderStructure filename of
        None \<Rightarrow> (Inl invalidDate, fs)
      | Some subfolder \<Rightarrow>
          let targetFolder = path_join [vaultRoot, subfolder];
              created = (if \<not> existsSync os fs targetFolder
                         then mkdirSync os fs targetFolder else (None, fs))
          in case created of
               (Some err, fs1) \<Rightarrow> (Inl err, fs1)
             | (None, fs1) \<Rightarrow>
                 let targetPath = path_join [targetFolder, filename]
                 in case writeFileSync os fs1 targetPath content of
                      (Some err, fs2) \<Rightarrow> (Inl err, fs2)
                    | (None, fs2) \<Rightarrow> (Inr targetPath, fs2))"

text \<open>
  Two file systems for running the function. The first only records the calls that
  change it: its state is the list of directories created and files written, in order.
  The second has no directory and refuses every change.
\<close>

datatype fs_call = Mkdir string | WriteFile string string

definition recording_fs :: "fs_call list node_fs" where
  "recording_fs =
     \<lparr> existsSync = (\<lambda>log p. Mkdir p \<in> set log),
       mkdirSync = (\<lambda>log p. (None, log @ [Mkdir p])),
       writeFileSync = (\<lambda>log p c. (None, log @ [WriteFile p c])) \<rparr>"

definition readonly_fs :: "fs_call list node_fs" where
  "readonly_fs =
     \<lparr> existsSync = (\<lambda>log p. False),
       mkdirSync = (\<lambda>log p. (Some (Error ''EACCES: permission denied''), log)),
       writeFileSync = (\<lambda>log p c. (Some (Error ''EACCES: permission denied''), log)) \<rparr>"


text \<open>
  The reading of the specification's sentence on the tokens, for comparison with
  \<open>resolveSubfolder\<close>: going through the template from the left, every token \<open>YYYY-MM\<close>
  becomes the year and the month joined by a hyphen, every other token \<open>YYYY\<close> the year.
\<close>

fun substituteTokens :: "string \<Rightarrow> string \<Rightarrow> string \<Rightarrow> string" where
  "substituteTokens year month [] = []"
| "substituteTokens year month (c # cs) =
     (if take 7 (c # cs) = ''YYYY-MM''
      then year @ ''-'' @ month @ substituteTokens year month (drop 6 cs)
      else if take 4 (c # cs) = ''YYYY''
      then year @ substituteTokens year month (drop 3 cs)
      else c # substituteTokens year month cs)"


section \<open>Image inlining\<close>

abbreviation DQ :: char where
  "DQ \<equiv> CHR 0x22"

text \<open>
  One HTTP request either returns the bytes of the body and the \<open>content-type\<close> header, if
  the response has one, or fails with a message. The network answers a request for a URL
  after the requests made before it, so that two requests for one URL may end
  differently. The requests made are kept in a list, the state of the network.
\<close>

datatype http_result =
    HttpOk string "string option"
  | HttpFailed string

type_synonym network = "string list \<Rightarrow> string \<Rightarrow> http_result"

text \<open>
  \<open>fetchImageWithFallback\<close>: the data URI of the image, or \<open>null\<close>. Both branches of the
  \<open>catch\<close> return \<open>null\<close>, whatever the message. \<open>base64\<close> stands for
  \<open>Buffer.toString('base64')\<close>.
\<close>

definition fetchImageWithFallback ::
  "(string \<Rightarrow> string) \<Rightarrow> network \<Rightarrow> string list \<Rightarrow> string \<Rightarrow> string
     \<Rightarrow> string option \<times> string list" where
  "fetchImageWithFallback base64 net requests url savePath =
     ((case net requests url of
         HttpOk bytes contentType \<Rightarrow>
           let base64Data = base64 bytes;
               mimeType = (if truthy contentType then the contentType else ''image/png'')
           in Some (''data:'' @ mimeType @ '';base64,'' @ base64Data)
       | HttpFailed errorMessage \<Rightarrow> None),
      requests @ [url])"

text \<open>
  \<open>saveImagesLocally\<close>: one request for each URL in turn; the data URI is pushed when
  there is one. \<open>fetchImageWithFallback\<close> does not throw, so the \<open>catch\<close> of the loop has
  no branch here.
\<close>

fun saveImagesLoop ::
  "(string \<Rightarrow> string) \<Rightarrow> network \<Rightarrow> string list \<Rightarrow> string list \<Rightarrow> string \<Rightarrow> string list
     \<Rightarrow> string list \<times> string list" where
  "saveImagesLoop base64 net requests [] savePath base64ImageData =
     (base64ImageData, requests)"
| "saveImagesLoop base64 net requests (url # urls) savePath base64ImageData =
     (case fetchImageWithFallback base64 net requests url savePath of
        (base64Data, requests') \<Rightarrow>
          if truthy base64Data
          then saveImagesLoop base64 net requests' urls savePath
                 (base64ImageData @ [the base64Data])
          else saveImagesLoop base64 net requests' urls savePath base64ImageData)"

definition saveImagesLocally ::
  "(string \<Rightarrow> string) \<Rightarrow> network \<Rightarrow> string list \<Rightarrow> string list \<Rightarrow> string
     \<Rightarrow> string list \<times> string list" where
  "saveImagesLocally base64 net requests imageUrls savePath =
     saveImagesLoop base64 net requests imageUrls savePath []"

text \<open>
  \<open>replaceImageUrlsWithBase64\<close>: \<open>forEach\<close> with the index; \<open>base64Data[index]\<close> is
  \<open>undefined\<close> beyond the end of the array.
\<close>

fun replaceLoop :: "string \<Rightarrow> string list \<Rightarrow> nat \<Rightarrow> string list \<Rightarrow> string" where
  "replaceLoop updatedHtml [] index base64Data = updatedHtml"
| "replaceLoop updatedHtml (url # urls) index base64Data =
     (let base64 = (if index < length base64Data then Some (base64Data ! index) else None)
      in if truthy base64
         then replaceLoop (js_replace updatedHtml url (the base64)) urls (Suc index) base64Data
         else replaceLoop (js_replace updatedHtml url []) urls (Suc index) base64Data)"

definition replaceImageUrlsWithBase64 :: "string \<Rightarrow> string list \<Rightarrow> string list \<Rightarrow> string" where
  "replaceImageUrlsWithBase64 html urls base64Data = replaceLoop html urls 0 base64Data"

text \<open>
  The regular expression \<open><img[^>]+src="([^">]+)"\<close>. After \<open>src="\<close> the group takes every
  character up to the next \<open>"\<close> or \<open>>\<close>; it must take one at least and a \<open>"\<close> must follow.
  The result is the group and the text after the match.
\<close>

definition matchSrc :: "string \<Rightarrow> (string \<times> string) option" where
  "matchSrc s =
     (if take 5 s = ''src='' @ [DQ] then
        (let url = takeWhile (\<lambda>c. c \<noteq> DQ \<and> c \<noteq> CHR ''>'') (drop 5 s);
             rest = drop (5 + length url) s
         in if url \<noteq> [] \<and> take 1 rest = [DQ] then Some (url, drop 1 rest) else None)
      else None)"

text \<open>
  \<open>[^>]+\<close> is greedy: it first takes \<open>k\<close> characters, as many as there are before the next
  \<open>>\<close>, and gives them back one by one, down to one, until the rest of the expression
  matches.
\<close>

fun matchAttributes :: "nat \<Rightarrow> string \<Rightarrow> (string \<times> string) option" where
  "matchAttributes 0 s = None"
| "matchAttributes (Suc k) s =
     (case matchSrc (drop (Suc k) s) of
        Some r \<Rightarrow> Some r
      | None \<Rightarrow> matchAttributes k s)"

definition matchImgAt :: "string \<Rightarrow> (string \<times> string) option" where
  "matchImgAt s =
     (if take 4 s = ''<img''
      then matchAttributes (length (takeWhile (\<lambda>c. c \<noteq> CHR ''>'') (drop 4 s))) (drop 4 s)
      else None)"

text \<open>\<open>regex.exec\<close>: the leftmost match at or after the current position.\<close>

fun regexExec :: "string \<Rightarrow> (string \<times> string) option" where
  "regexExec [] = None"
| "regexExec (c # cs) =
     (case matchImgAt (c # cs) of
        Some r \<Rightarrow> Some r
      | None \<Rightarrow> regexExec cs)"

lemma matchSrc_shorter:
  assumes "matchSrc s = Some (url, rest)"
  shows "length rest < length s"
proof -
  from assms have start: "take 5 s = ''src='' @ [DQ]"
    and rest: "rest = drop 1 (drop (5 + length url) s)"
    by (auto simp: matchSrc_def Let_def split: if_splits)
  from start have "s \<noteq> []" by auto
  with rest show ?thesis by simp
qed

lemma matchAttributes_shorter: "matchAttributes k s = Some (url, rest) \<Longrightarrow> length rest < length s"
proof (induction k)
  case 0
  then show ?case by simp
next
  case (Suc k)
  show ?case
  proof (cases "matchSrc (drop (Suc k) s)")
    case None
    with Suc show ?thesis by simp
  next
    case (Some r)
    with Suc.prems have "matchSrc (drop (Suc k) s) = Some (url, rest)" by simp
    from matchSrc_shorter [OF this] show ?thesis by simp
  qed
qed

lemma matchImgAt_shorter: "matchImgAt s = Some (url, rest) \<Longrightarrow> length rest < length s"
  by (auto simp: matchImgAt_def split: if_splits dest!: matchAttributes_shorter)

lemma regexExec_shorter: "regexExec s = Some (url, rest) \<Longrightarrow> length rest < length s"
proof (induction s)
  case Nil
  then show ?case by simp
next
  case (Cons c cs)
  show ?case
  proof (cases "matchImgAt (c # cs)")
    case None
    with Cons show ?thesis by fastforce
  next
    case (Some r)
    with Cons.prems have "matchImgAt (c # cs) = Some (url, rest)" by simp
    from matchImgAt_shorter [OF this] show ?thesis .
  qed
qed

text \<open>\<open>extractImageUrls\<close>: the loop over \<open>regex.exec\<close>, each search starting after the last match.\<close>

function extractImageUrls :: "string \<Rightarrow> string list" where
  "extractImageUrls html =
     (case regexExec html of
        None \<Rightarrow> []
      | Some (url, rest) \<Rightarrow> url # extractImageUrls rest)"
  by pat_completeness auto
termination
  by (relation "measure length") (auto dest: regexExec_shorter)

declare extractImageUrls.simps [simp del]

text \<open>
  The record of a fetched message; its field \<open>from\<close> is called \<open>sender\<close> here.
  \<open>prepareEmailContent\<close> goes from the requests made before the call to the body and
  the requests made after it.
\<close>

record email =
  HtmlBody :: "string option"
  TextBody :: "string option"
  sender :: "string option"
  date :: "string option"

definition prepareEmailContent ::
  "(string \<Rightarrow> string) \<Rightarrow> network \<Rightarrow> string list \<Rightarrow> email \<Rightarrow> string
     \<Rightarrow> string \<times> string list" where
  "prepareEmailContent base64 net requests email savePath =
     (if truthy (HtmlBody email) then
        (let imageUrls = extractImageUrls (the (HtmlBody email))
         in case saveImagesLocally base64 net requests imageUrls savePath of
              (base64ImageData, requests') \<Rightarrow>
                (replaceImageUrlsWithBase64 (the (HtmlBody email)) imageUrls base64ImageData,
                 requests'))
      else if truthy (TextBody email) then
        (''<html><body><pre>'' @ the (TextBody email) @ ''</pre></body></html>'', requests)
      else (''<html><body><p>No content available.</p></body></html>'', requests))"

text \<open>
  \<open>Buffer.toString('base64')\<close> on bytes, for running the functions: three bytes give four
  characters of the alphabet, and the last group is padded with \<open>=\<close>.
\<close>

definition base64Alphabet :: string where
  "base64Alphabet = ''ABCDEFGHIJKLMNOPQRSTUVWXYZabcdefghijklmnopqrstuvwxyz0123456789+/''"

definition sextet :: "nat \<Rightarrow> char" where
  "sextet n = base64Alphabet ! (n mod 64)"

fun base64_encode :: "string \<Rightarrow> string" where
  "base64_encode [] = []"
| "base64_encode [a] =
     (let x = (of_char a :: nat)
      in [sextet (x div 4), sextet ((x mod 4) * 16), CHR ''='', CHR ''=''])"
| "base64_encode [a, b] =
     (let x = (of_char a :: nat); y = (of_char b :: nat)
      in [sextet (x div 4), sextet ((x mod 4) * 16 + y div 16), sextet ((y mod 16) * 4),
          CHR ''=''])"
| "base64_encode (a # b # c # rest) =
     (let x = (of_char a :: nat); y = (of_char b :: nat); z = (of_char c :: nat)
      in [sextet (x div 4), sextet ((x mod 4) * 16 + y div 16),
          sextet ((y mod 16) * 4 + z div 64), sextet (z mod 64)]
         @ base64_encode rest)"


section \<open>Messages\<close>

text \<open>
  A header as the mail service delivers it has a name and a value. A part of the body has
  a MIME type, the base64 text of \<open>body.data\<close> when there is one, and its nested parts
  when it has a \<open>parts\<close> array. The payload is the root part together with the headers
  of the message.
\<close>

record header =
  name :: string
  "value" :: string

datatype part = Part (part_mimeType: string) (part_data: "string option")
  (part_parts: "part list option")

record payload =
  headers :: "header list option"
  mimeType :: string
  body_data :: "string option"
  parts :: "part list option"

text \<open>
  What the runtime provides to \<open>fetchEmailContent\<close>: \<open>Buffer.from(s, 'base64')\<close> followed
  by \<open>toString('utf-8')\<close>; \<open>new Date(s)\<close>, which is nothing for an invalid date; and
  \<open>toISOString\<close> on a valid date.
\<close>

record 't runtime =
  decodeBase64 :: "string \<Rightarrow> string"
  parseDate :: "string \<Rightarrow> 't option"
  toISOString :: "'t \<Rightarrow> string"

definition toLowerCase :: "string \<Rightarrow> string" where
  "toLowerCase s =
     map (\<lambda>c. let n = (of_char c :: nat)
              in if (65 \<le> n \<and> n \<le> 90) \<or> (192 \<le> n \<and> n \<le> 222 \<and> n \<noteq> 215)
                 then char_of (n + 32) else c) s"

definition isWhiteSpace :: "char \<Rightarrow> bool" where
  "isWhiteSpace c = ((of_char c :: nat) \<in> {9, 10, 11, 12, 13, 32, 160})"

definition trim :: "string \<Rightarrow> string" where
  "trim s = rev (dropWhile isWhiteSpace (rev (dropWhile isWhiteSpace s)))"

subsection \<open>The sender\<close>

text \<open>
  The first alternative of \<open>/<([^>]+)>|^[^<\s]+@[^>\s]+$/\<close> at the current position: a
  \<open><\<close>, then every character up to the next \<open>>\<close>, one at least, then that \<open>>\<close>. The
  result is the group.
\<close>

definition matchAngle :: "string \<Rightarrow> string option" where
  "matchAngle s =
     (case s of
        [] \<Rightarrow> None
      | c # cs \<Rightarrow>
          (let addr = takeWhile (\<lambda>x. x \<noteq> CHR ''>'') cs
           in if c = CHR ''<'' \<and> addr \<noteq> [] \<and> take 1 (drop (length addr) cs) = ''>''
              then Some addr else None))"

text \<open>
  The second alternative matches the whole string only: some \<open>@\<close> has before it one
  character or more, none of them \<open><\<close> or white space, and after it one or more, none of
  them \<open>>\<close> or white space.
\<close>

definition matchBare :: "string \<Rightarrow> bool" where
  "matchBare s =
     list_ex (\<lambda>i. s ! i = CHR ''@'' \<and> 0 < i \<and> Suc i < length s
                \<and> list_all (\<lambda>c. c \<noteq> CHR ''<'' \<and> \<not> isWhiteSpace c) (take i s)
                \<and> list_all (\<lambda>c. c \<noteq> CHR ''>'' \<and> \<not> isWhiteSpace c) (drop (Suc i) s))
       [0..<length s]"

text \<open>
  \<open>value.match(...)\<close>: the leftmost match, the first alternative before the second at each
  position; the second can match at the start only. The result is the group, when the
  first alternative matched, and the whole match.
\<close>

fun emailMatch :: "bool \<Rightarrow> string \<Rightarrow> (string option \<times> string) option" where
  "emailMatch atStart s =
     (case matchAngle s of
        Some addr \<Rightarrow> Some (Some addr, ''<'' @ addr @ ''>'')
      | None \<Rightarrow>
          if atStart \<and> matchBare s then Some (None, s)
          else (case s of
                  [] \<Rightarrow> None
                | c # cs \<Rightarrow> emailMatch False cs))"

definition extractSender :: "header list \<Rightarrow> string" where
  "extractSender hs =
     (case find (\<lambda>h. toLowerCase (name h) = ''from'') hs of
        None \<Rightarrow> ''unknown''
      | Some fromHeader \<Rightarrow>
          (case emailMatch True (value fromHeader) of
             None \<Rightarrow> ''unknown''
           | Some (captured, whole) \<Rightarrow>
               trim (if truthy captured then the captured else whole)))"

subsection \<open>The date\<close>

definition extractDate :: "'t runtime \<Rightarrow> header list \<Rightarrow> js_error + string" where
  "extractDate rt hs =
     (case find (\<lambda>h. toLowerCase (name h) = ''date'') hs of
        None \<Rightarrow> Inr []
      | Some dateHeader \<Rightarrow>
          (case parseDate rt (value dateHeader) of
             None \<Rightarrow> Inl (RangeError ''Invalid time value'')
           | Some t \<Rightarrow> Inr (toISOString rt t)))"

subsection \<open>The bodies\<close>

definition decodeData :: "(string \<Rightarrow> string) \<Rightarrow> string option \<Rightarrow> string" where
  "decodeData decode d = decode (if truthy d then the d else [])"

fun extractBodyFromParts :: "(string \<Rightarrow> string) \<Rightarrow> part list \<Rightarrow> string \<Rightarrow> string" where
  "extractBodyFromParts decode [] mt = []"
| "extractBodyFromParts decode (Part m d None # ps) mt =
     (if m = mt then decodeData decode d
      else extractBodyFromParts decode ps mt)"
| "extractBodyFromParts decode (Part m d (Some qs) # ps) mt =
     (if m = mt then decodeData decode d
      else (let nestedBody = extractBodyFromParts decode qs mt
            in if nestedBody \<noteq> [] then nestedBody
               else extractBodyFromParts decode ps mt))"

definition extractBodies :: "(string \<Rightarrow> string) \<Rightarrow> payload \<Rightarrow> string \<times> string" where
  "extractBodies decode pl =
     (case parts pl of
        Some ps \<Rightarrow>
          (extractBodyFromParts decode ps ''text/html'',
           extractBodyFromParts decode ps ''text/plain'')
      | None \<Rightarrow>
          if mimeType pl = ''text/html'' then (decodeData decode (body_data pl), [])
          else if mimeType pl = ''text/plain'' then ([], decodeData decode (body_data pl))
          else ([], []))"

subsection \<open>The mail service\<close>

record list_response =
  status :: nat
  messages :: "string option list option"

record gmail =
  messages_list :: "js_error + list_response"
  messages_get_metadata :: "string \<Rightarrow> js_error + header list option"
  messages_get_full :: "string \<Rightarrow> js_error + payload"

text \<open>\<open>fetchEmailContent\<close>; the \<open>catch\<close> logs the error and throws it again.\<close>

definition fetchEmailContent :: "'t runtime \<Rightarrow> gmail \<Rightarrow> string \<Rightarrow> js_error + email" where
  "fetchEmailContent rt service messageId =
     (case messages_get_full service messageId of
        Inl error \<Rightarrow> Inl error
      | Inr pl \<Rightarrow>
          (let hs = (case headers pl of None \<Rightarrow> [] | Some l \<Rightarrow> l);
               address = extractSender hs
           in case extractDate rt hs of
                Inl error \<Rightarrow> Inl error
              | Inr isoDate \<Rightarrow>
                  (let (htmlBody, textBody) = extractBodies (decodeBase64 rt) pl
                   in Inr \<lparr> HtmlBody = Some htmlBody, TextBody = Some textBody,
                            sender = Some address, date = Some isoDate \<rparr>)))"

text \<open>
  The date the command takes for the file name of a fetched message: that of the
  message, or the current time when the message has none.
\<close>

definition emailDate :: "'t runtime \<Rightarrow> 't \<Rightarrow> email \<Rightarrow> 't option" where
  "emailDate rt now email =
     (if truthy (date email) then parseDate rt (the (date email)) else Some now)"

text \<open>
  The first steps of the command on one message: the content is fetched and the date for
  the file name is chosen. What \<open>fetchEmailContent\<close> throws goes to the \<open>catch\<close> of the
  message, before any date is chosen.
\<close>

definition fetchEmailDate ::
  "'t runtime \<Rightarrow> 't \<Rightarrow> gmail \<Rightarrow> string \<Rightarrow> js_error + 't option" where
  "fetchEmailDate rt now service messageId =
     (case fetchEmailContent rt service messageId of
        Inl error \<Rightarrow> Inl error
      | Inr email \<Rightarrow> Inr (emailDate rt now email))"

text \<open>\<open>fetchEmailsWithLabelSubjects\<close>: the subject of one message, the loop over the ids, the
  body of the outer \<open>try\<close>, and the function with its \<open>catch\<close>.\<close>

definition subjectOf :: "header list option \<Rightarrow> string" where
  "subjectOf payloadHeaders =
     (let hs = (case payloadHeaders of None \<Rightarrow> [] | Some l \<Rightarrow> l)
      in case find (\<lambda>h. name h = ''Subject'') hs of
           None \<Rightarrow> ''No Subject''
         | Some subjectHeader \<Rightarrow>
             if value subjectHeader \<noteq> [] then value subjectHeader else ''No Subject'')"

fun fetchSubjects ::
  "gmail \<Rightarrow> string option list \<Rightarrow> (string \<times> string) list \<Rightarrow> (string \<times> string) list" where
  "fetchSubjects service [] msgs = msgs"
| "fetchSubjects service (messageId # messageIds) msgs =
     (if \<not> truthy messageId then fetchSubjects service messageIds msgs
      else (case messages_get_metadata service (the messageId) of
              Inl err \<Rightarrow> fetchSubjects service messageIds msgs
            | Inr payloadHeaders \<Rightarrow>
                fetchSubjects service messageIds
                  (msgs @ [(subjectOf payloadHeaders, the messageId)])))"

definition queryLabelledMessages :: "gmail \<Rightarrow> js_error + (string \<times> string) list" where
  "queryLabelledMessages service =
     (case messages_list service of
        Inl err \<Rightarrow> Inl err
      | Inr response \<Rightarrow>
          if status response \<noteq> 200 then Inr []
          else (let messageIds = (case messages response of None \<Rightarrow> [] | Some ids \<Rightarrow> ids)
                in Inr (fetchSubjects service messageIds [])))"

definition fetchEmailsWithLabelSubjects ::
  "gmail \<Rightarrow> string \<Rightarrow> js_error + (string \<times> string) list" where
  "fetchEmailsWithLabelSubjects service accountName =
     (case queryLabelledMessages service of
        Inl err \<Rightarrow> Inr []
      | Inr msgs \<Rightarrow> Inr msgs)"


section \<open>The client of the account: \<open>getAuthClient\<close>\<close>

text \<open>
  The client library and \<open>JSON.parse\<close> are taken as they come: building a client may
  throw, parsing may throw, and \<open>setCredentials\<close> stores the parsed token in the client.
\<close>

record credentials =
  client_id :: string
  client_secret :: string
  redirect_uris :: "string list"

record ('c, 'j) auth_library =
  newOAuth2Client :: "string \<Rightarrow> string \<Rightarrow> string option \<Rightarrow> js_error + 'c"
  JSON_parse :: "string \<Rightarrow> js_error + 'j"
  setCredentials :: "'c \<Rightarrow> 'j \<Rightarrow> 'c"

definition getAuthClient ::
  "('c, 'j) auth_library \<Rightarrow> credentials \<Rightarrow> string option \<Rightarrow> 'c option" where
  "getAuthClient lib creds token =
     (if \<not> truthy token then None
      else (case newOAuth2Client lib (client_id creds) (client_secret creds)
                   (case redirect_uris creds of [] \<Rightarrow> None | uri # _ \<Rightarrow> Some uri) of
              Inl err \<Rightarrow> None
            | Inr oAuth2Client \<Rightarrow>
                (case JSON_parse lib (the token) of
                   Inl err \<Rightarrow> Some oAuth2Client
                 | Inr credentialsOfToken \<Rightarrow>
                     Some (setCredentials lib oAuth2Client credentialsOfToken))))"


section \<open>The order of the parts, and a runtime for running the functions\<close>

text \<open>
  The parts of a tree in depth-first order, a part before the parts nested in it, for
  comparison with \<open>extractBodyFromParts\<close>. The top of the tree of a message is its
  \<open>parts\<close> array; a message without one is a single part, the payload itself.
\<close>

fun partsInOrder :: "part list \<Rightarrow> part list" where
  "partsInOrder [] = []"
| "partsInOrder (Part m d None # ps) = Part m d None # partsInOrder ps"
| "partsInOrder (Part m d (Some qs) # ps) =
     Part m d (Some qs) # partsInOrder qs @ partsInOrder ps"

definition topParts :: "payload \<Rightarrow> part list" where
  "topParts pl =
     (case parts pl of
        Some ps \<Rightarrow> ps
      | None \<Rightarrow> [Part (mimeType pl) (body_data pl) None])"

definition firstPartOfType :: "string \<Rightarrow> part list \<Rightarrow> part option" where
  "firstPartOfType mt ps = find (\<lambda>p. part_mimeType p = mt) (partsInOrder ps)"

text \<open>
  Base64 text to bytes: the characters up to the first \<open>=\<close> are read, in the standard
  or the URL-safe alphabet, and those of neither are passed over. For ASCII content the
  bytes are the decoded string.
\<close>

fun indexIn :: "char \<Rightarrow> string \<Rightarrow> nat option" where
  "indexIn c [] = None"
| "indexIn c (x # xs) = (if c = x then Some 0 else map_option Suc (indexIn c xs))"

definition sextetOf :: "char \<Rightarrow> nat option" where
  "sextetOf c =
     (if c = CHR ''-'' then Some 62 else if c = CHR ''_'' then Some 63
      else indexIn c base64Alphabet)"

fun decodeSextets :: "nat list \<Rightarrow> string" where
  "decodeSextets (a # b # c # d # rest) =
     [char_of (a * 4 + b div 16), char_of ((b mod 16) * 16 + c div 4),
      char_of ((c mod 4) * 64 + d)] @ decodeSextets rest"
| "decodeSextets [a, b, c] = [char_of (a * 4 + b div 16), char_of ((b mod 16) * 16 + c div 4)]"
| "decodeSextets [a, b] = [char_of (a * 4 + b div 16)]"
| "decodeSextets _ = []"

definition base64_decode :: "string \<Rightarrow> string" where
  "base64_decode s =
     decodeSextets (List.map_filter sextetOf (takeWhile (\<lambda>c. c \<noteq> CHR ''='') s))"

text \<open>
  A stand-in for \<open>Date\<close>: it knows the days written \<open>YYYY-MM-DD\<close> with a month from 01 to
  12 and a day from 01 to 28, which are valid dates at midnight UTC, alone or followed by
  \<open>T00:00:00.000Z\<close> as \<open>toISOString\<close> writes them, and takes every other text for an
  invalid date.
\<close>

definition twoDigits :: "string \<Rightarrow> nat" where
  "twoDigits s = (of_char (s ! 0) - 48) * 10 + (of_char (s ! 1) - 48)"

definition isoDay :: "string \<Rightarrow> bool" where
  "isoDay s =
     (length s = 10 \<and> list_all isDigit (take 4 s) \<and> s ! 4 = CHR ''-''
      \<and> list_all isDigit (take 2 (drop 5 s)) \<and> s ! 7 = CHR ''-''
      \<and> list_all isDigit (drop 8 s)
      \<and> 1 \<le> twoDigits (drop 5 s) \<and> twoDigits (drop 5 s) \<le> 12
      \<and> 1 \<le> twoDigits (drop 8 s) \<and> twoDigits (drop 8 s) \<le> 28)"

definition parseIsoDay :: "string \<Rightarrow> string option" where
  "parseIsoDay s =
     (if isoDay (take 10 s) \<and> (drop 10 s = [] \<or> drop 10 s = ''T00:00:00.000Z'')
      then Some (take 10 s) else None)"

definition sample_runtime :: "string runtime" where
  "sample_runtime =
     \<lparr> decodeBase64 = base64_decode,
       parseDate = parseIsoDay,
       toISOString = (\<lambda>day. day @ ''T00:00:00.000Z'') \<rparr>"

text \<open>
  A stand-in for the client library: a client is what it was built from and the token
  stored in it; building never throws. The parser takes a text enclosed in braces as
  parsed and throws on every other text.
\<close>

definition sample_library ::
  "(string \<times> string \<times> string option \<times> string option, string) auth_library" where
  "sample_library =
     \<lparr> newOAuth2Client = (\<lambda>clientId clientSecret redirectUri.
         Inr (clientId, clientSecret, redirectUri, None)),
       JSON_parse = (\<lambda>text.
         if text \<noteq> [] \<and> hd text = CHR ''{'' \<and> last text = CHR ''}'' then Inr text
         else Inl (SyntaxError ''Unexpected token'')),
       setCredentials = (\<lambda>(clientId, clientSecret, redirectUri, _) token.
         (clientId, clientSecret, redirectUri, Some token)) \<rparr>"

text \<open>
  A mail service for running the functions. The label query finds three messages and an
  entry without an id; the subject of the second cannot be fetched. The first message is
  from \<open>Name <a@b.com>\<close> and its \<open>Date\<close> header holds no date; the second is from a
  bare address on the 15th of March 2024; the third has no headers.
\<close>

definition sample_payload :: payload where
  "sample_payload =
     \<lparr> headers = Some [\<lparr> name = ''To'', value = ''me@example.org'' \<rparr>,
                       \<lparr> name = ''From'', value = ''Name <a@b.com>'' \<rparr>,
                       \<lparr> name = ''Date'', value = ''yesterday'' \<rparr>],
       mimeType = ''text/plain'',
       body_data = Some ''aGk='',
       parts = None \<rparr>"

definition dated_payload :: payload where
  "dated_payload =
     \<lparr> headers = Some [\<lparr> name = ''from'', value = ''a@b.com'' \<rparr>,
                       \<lparr> name = ''DATE'', value = ''2024-03-15'' \<rparr>],
       mimeType = ''text/plain'',
       body_data = Some ''aGk='',
       parts = None \<rparr>"

definition undated_payload :: payload where
  "undated_payload =
     \<lparr> headers = None,
       mimeType = ''text/html'',
       body_data = Some ''PGI+aGk8L2I+'',
       parts = None \<rparr>"

definition sample_service :: gmail where
  "sample_service =
     \<lparr> messages_list =
         Inr \<lparr> status = 200, messages = Some [Some ''m1'', Some ''m2'', None, Some ''m3''] \<rparr>,
       messages_get_metadata = (\<lambda>messageId.
         if messageId = ''m1'' then Inr (Some [\<lparr> name = ''Subject'', value = ''Hello'' \<rparr>])
         else if messageId = ''m2'' then Inl (Error ''Request failed'')
         else Inr None),
       messages_get_full = (\<lambda>messageId.
         if messageId = ''m1'' then Inr sample_payload
         else if messageId = ''m2'' then Inr dated_payload
         else if messageId = ''m3'' then Inr undated_payload
         else Inl (Error ''Not Found'')) \<rparr>"

text \<open>
  Two messages with parts. In the first the two bodies are the alternatives of one
  container. In the second the container holds an HTML part without data, and an HTML
  part with data follows the container.
\<close>

definition alternative_payload :: payload where
  "alternative_payload =
     \<lparr> headers = None,
       mimeType = ''multipart/alternative'',
       body_data = None,
       parts = Some [Part ''text/plain'' (Some ''aGk='') None,
                     Part ''text/html'' (Some ''PGI+aGk8L2I+'') None] \<rparr>"

definition empty_html_first_payload :: payload where
  "empty_html_first_payload =
     \<lparr> headers = None,
       mimeType = ''multipart/mixed'',
       body_data = None,
       parts = Some [Part ''multipart/alternative'' None (Some [Part ''text/html'' None None]),
                     Part ''text/html'' (Some ''PGI+aGk8L2I+'') None] \<rparr>"

text \<open>
  An HTML body with two images, a network on which the first request fails and every
  later one returns the three bytes \<open>ABC\<close> as \<open>image/png\<close>, and a network on which
  every request fails.
\<close>

definition two_images_html :: string where
  "two_images_html =
     ''<img src='' @ [DQ] @ ''http://x/1.png'' @ [DQ] @ ''>''
     @ ''<img src='' @ [DQ] @ ''http://x/2.png'' @ [DQ] @ ''>''"

definition offline :: network where
  "offline requests url = HttpFailed ''Network Error''"

definition first_request_fails :: network where
  "first_request_fails requests url =
     (if requests = [] then HttpFailed ''Network Error''
      else HttpOk ''ABC'' (Some ''image/png''))"

declare emailMatch.simps [simp del]


section \<open>Properties of file placement\<close>

subsection \<open>A file name without a date\<close>

lemma digits_subset: "list_all isDigit xs \<longleftrightarrow> set xs \<subseteq> set ''0123456789''"
  unfolding list_all_iff isDigit_def by blast

lemma dateMatch_None_iff:
  "dateMatch filename = None \<longleftrightarrow>
     \<not> (8 \<le> length filename \<and> set (take 8 filename) \<subseteq> set ''0123456789'')"
  unfolding dateMatch_def digits_subset by simp

lemma dateMatch_digits:
  assumes "8 \<le> length filename" and "set (take 8 filename) \<subseteq> set ''0123456789''"
  shows "dateMatch filename = Some (take 4 filename, take 2 (drop 4 filename))"
  unfolding dateMatch_def digits_subset using assms by simp

text \<open>
  Claim C2. For every file name that does not begin with eight digits, \<open>saveFileToStack\<close>
  throws the error of the missing date and leaves the file system as it found it: it has
  made no call that creates a directory or writes a file. This holds for every file
  system and every state of it.
\<close>

theorem saveFileToStack_rejects_undated:
  assumes "\<not> (8 \<le> length filename \<and> set (take 8 filename) \<subseteq> set ''0123456789'')"
  shows "saveFileToStack os fs vaultRoot subfolderStructure filename content
           = (Inl invalidDate, fs)"
proof -
  from assms have "dateMatch filename = None"
    by (simp only: dateMatch_None_iff not_False_eq_True)
  then have "resolveSubfolder subfolderStructure filename = None"
    by (simp add: resolveSubfolder_def)
  then show ?thesis
    by (simp add: saveFileToStack_def)
qed

theorem saveFileToStack_rejects_undated_witness:
  "\<not> (8 \<le> length ''2024-03-15 note.htm''
        \<and> set (take 8 ''2024-03-15 note.htm'') \<subseteq> set ''0123456789'')
   \<and> saveFileToStack recording_fs [] ''/vault'' ''YYYY/YYYY-MM'' ''2024-03-15 note.htm''
        ''<html></html>'' = (Inl invalidDate, [])"
  using saveFileToStack_rejects_undated
    [of "''2024-03-15 note.htm''" recording_fs "[]" "''/vault''" "''YYYY/YYYY-MM''" "''<html></html>''"]
  by simp

subsection \<open>Any eight digits are accepted\<close>

lemma saveFileToStack_resolved:
  assumes "resolveSubfolder subfolderStructure filename = Some subfolder"
    and "(if \<not> existsSync os fs (path_join [vaultRoot, subfolder])
          then mkdirSync os fs (path_join [vaultRoot, subfolder]) else (None, fs)) = (e1, fs1)"
    and "writeFileSync os fs1 (path_join [path_join [vaultRoot, subfolder], filename]) content
           = (e2, fs2)"
  shows "saveFileToStack os fs vaultRoot subfolderStructure filename content
           = (case e1 of
                Some err \<Rightarrow> (Inl err, fs1)
              | None \<Rightarrow>
                  (case e2 of
                     Some err \<Rightarrow> (Inl err, fs2)
                   | None \<Rightarrow> (Inr (path_join [path_join [vaultRoot, subfolder], filename]), fs2)))"
  using assms by (simp add: saveFileToStack_def Let_def split: option.splits)

text \<open>
  Claim C10. For every file name that begins with eight digits, whatever they are, the
  first four are put in place of \<open>YYYY\<close> and the first four, a hyphen and the next two in
  place of \<open>YYYY-MM\<close>, as they stand; the date is not checked. An error of
  \<open>saveFileToStack\<close> on such a name is one thrown by the file system, and when the file
  system throws none the function returns a path. The name of the witness begins with
  20241399 and gives the month 13, on a file system that takes every call and on one that
  refuses them.
\<close>

theorem saveFileToStack_takes_digits_verbatim:
  assumes "8 \<le> length filename" and "set (take 8 filename) \<subseteq> set ''0123456789''"
  shows "resolveSubfolder subfolderStructure filename
           = Some (js_replace
                     (js_replace (path_join [''Chronological'', ''Email'', subfolderStructure])
                        ''YYYY'' (take 4 filename))
                     ''YYYY-MM'' (take 4 filename @ ''-'' @ take 2 (drop 4 filename)))
         \<and> (\<forall>err. fst (saveFileToStack os fs vaultRoot subfolderStructure filename content) = Inl err
              \<longrightarrow> (\<exists>s p. fst (mkdirSync os s p) = Some err)
                  \<or> (\<exists>s p c. fst (writeFileSync os s p c) = Some err))
         \<and> ((\<forall>s p. fst (mkdirSync os s p) = None) \<and> (\<forall>s p c. fst (writeFileSync os s p c) = None)
              \<longrightarrow> (\<exists>targetPath fs'. saveFileToStack os fs vaultRoot subfolderStructure filename content
                     = (Inr targetPath, fs')))"
proof -
  let ?sub = "js_replace
                     (js_replace (path_join [''Chronological'', ''Email'', subfolderStructure])
                        ''YYYY'' (take 4 filename))
                     ''YYYY-MM'' (take 4 filename @ ''-'' @ take 2 (drop 4 filename))"
  have sub: "resolveSubfolder subfolderStructure filename = Some ?sub"
    by (simp add: resolveSubfolder_def dateMatch_digits [OF assms])
  define targetFolder where "targetFolder = path_join [vaultRoot, ?sub]"
  define targetPath where "targetPath = path_join [targetFolder, filename]"
  obtain e1 fs1 where created:
    "(if \<not> existsSync os fs targetFolder then mkdirSync os fs targetFolder else (None, fs))
       = (e1, fs1)"
    by (cases "if \<not> existsSync os fs targetFolder then mkdirSync os fs targetFolder else (None, fs)")
  obtain e2 fs2 where written: "writeFileSync os fs1 targetPath content = (e2, fs2)"
    by (cases "writeFileSync os fs1 targetPath content")
  have run: "saveFileToStack os fs vaultRoot subfolderStructure filename content
               = (case e1 of
                    Some err \<Rightarrow> (Inl err, fs1)
                  | None \<Rightarrow> (case e2 of Some err \<Rightarrow> (Inl err, fs2) | None \<Rightarrow> (Inr targetPath, fs2)))"
    using saveFileToStack_resolved [OF sub, of os fs vaultRoot e1 fs1 content e2 fs2]
      created written
    unfolding targetFolder_def targetPath_def by blast
  have e1: "e1 = None \<or> e1 = fst (mkdirSync os fs targetFolder)"
    using created by (auto split: if_splits)
  have e2: "e2 = fst (writeFileSync os fs1 targetPath content)"
    using written by simp
  have errs: "\<forall>err. fst (saveFileToStack os fs vaultRoot subfolderStructure filename content) = Inl err
              \<longrightarrow> (\<exists>s p. fst (mkdirSync os s p) = Some err)
                  \<or> (\<exists>s p c. fst (writeFileSync os s p c) = Some err)"
  proof (intro allI impI)
    fix err
    assume "fst (saveFileToStack os fs vaultRoot subfolderStructure filename content) = Inl err"
    with run have "e1 = Some err \<or> e2 = Some err"
      by (auto split: option.splits)
    then show "(\<exists>s p. fst (mkdirSync os s p) = Some err)
                  \<or> (\<exists>s p c. fst (writeFileSync os s p c) = Some err)"
    proof
      assume "e1 = Some err"
      with e1 have "fst (mkdirSync os fs targetFolder) = Some err" by auto
      then show ?thesis by blast
    next
      assume "e2 = Some err"
      with e2 have "fst (writeFileSync os fs1 targetPath content) = Some err" by simp
      then show ?thesis by blast
    qed
  qed
  have ok: "(\<forall>s p. fst (mkdirSync os s p) = None) \<and> (\<forall>s p c. fst (writeFileSync os s p c) = None)
              \<longrightarrow> (\<exists>targetPath fs'. saveFileToStack os fs vaultRoot subfolderStructure filename content
                     = (Inr targetPath, fs'))"
  proof
    assume quiet: "(\<forall>s p. fst (mkdirSync os s p) = None) \<and> (\<forall>s p c. fst (writeFileSync os s p c) = None)"
    with e1 e2 have "e1 = None" and "e2 = None" by auto
    with run show "\<exists>targetPath fs'. saveFileToStack os fs vaultRoot subfolderStructure filename content
                     = (Inr targetPath, fs')"
      by simp
  qed
  from sub errs ok show ?thesis by blast
qed

theorem saveFileToStack_takes_digits_verbatim_witness:
  "8 \<le> length ''20241399_101500 - a@b.com -- Hi.htm''
   \<and> set (take 8 ''20241399_101500 - a@b.com -- Hi.htm'') \<subseteq> set ''0123456789''
   \<and> resolveSubfolder ''YYYY/YYYY-MM'' ''20241399_101500 - a@b.com -- Hi.htm''
       = Some ''Chronological/Email/2024/2024-13''
   \<and> saveFileToStack recording_fs [] ''/vault'' ''YYYY/YYYY-MM''
        ''20241399_101500 - a@b.com -- Hi.htm'' ''<html></html>''
       = (Inr ''/vault/Chronological/Email/2024/2024-13/20241399_101500 - a@b.com -- Hi.htm'',
          [Mkdir ''/vault/Chronological/Email/2024/2024-13'',
           WriteFile ''/vault/Chronological/Email/2024/2024-13/20241399_101500 - a@b.com -- Hi.htm''
             ''<html></html>''])
   \<and> saveFileToStack readonly_fs [] ''/vault'' ''YYYY/YYYY-MM''
        ''20241399_101500 - a@b.com -- Hi.htm'' ''<html></html>''
       = (Inl (Error ''EACCES: permission denied''), [])"
proof -
  have refused: "saveFileToStack readonly_fs [] ''/vault'' ''YYYY/YYYY-MM''
        ''20241399_101500 - a@b.com -- Hi.htm'' ''<html></html>''
       = (Inl (Error ''EACCES: permission denied''), [])"
    by code_simp
  have len: "8 \<le> length ''20241399_101500 - a@b.com -- Hi.htm''" by simp
  have digs: "set (take 8 ''20241399_101500 - a@b.com -- Hi.htm'') \<subseteq> set ''0123456789''"
    by simp
  have sub: "js_replace
                     (js_replace (path_join [''Chronological'', ''Email'', ''YYYY/YYYY-MM''])
                        ''YYYY'' (take 4 ''20241399_101500 - a@b.com -- Hi.htm''))
                     ''YYYY-MM'' (take 4 ''20241399_101500 - a@b.com -- Hi.htm'' @ ''-'' @ take 2 (drop 4 ''20241399_101500 - a@b.com -- Hi.htm''))
     = ''Chronological/Email/2024/2024-13''"
    by code_simp
  have run: "saveFileToStack recording_fs [] ''/vault'' ''YYYY/YYYY-MM''
        ''20241399_101500 - a@b.com -- Hi.htm'' ''<html></html>''
       = (Inr ''/vault/Chronological/Email/2024/2024-13/20241399_101500 - a@b.com -- Hi.htm'',
          [Mkdir ''/vault/Chronological/Email/2024/2024-13'',
           WriteFile ''/vault/Chronological/Email/2024/2024-13/20241399_101500 - a@b.com -- Hi.htm''
             ''<html></html>''])"
    by code_simp
  from saveFileToStack_takes_digits_verbatim [OF len digs, of "''YYYY/YYYY-MM''" recording_fs
      "[]" "''/vault''" "''<html></html>''", THEN conjunct1]
  have "resolveSubfolder ''YYYY/YYYY-MM'' ''20241399_101500 - a@b.com -- Hi.htm''
       = Some ''Chronological/Email/2024/2024-13''"
    unfolding sub .
  with len digs run refused show ?thesis by blast
qed



subsection \<open>The tokens of the template\<close>

lemma indexOf_absent: "c \<notin> set s \<Longrightarrow> indexOf (c # pat) s = None"
proof (induction s)
  case Nil
  show ?case by simp
next
  case (Cons x xs)
  then have "x \<noteq> c" by auto
  with Cons show ?case by simp
qed

lemma indexOf_first: "c \<notin> set a \<Longrightarrow> indexOf (c # pat) (a @ c # pat @ b) = Some (length a)"
proof (induction a)
  case Nil
  show ?case by simp
next
  case (Cons x xs)
  then have "x \<noteq> c" by auto
  with Cons show ?case by simp
qed

lemma getSubstitution_plain:
  "CHR ''$'' \<notin> set repl \<Longrightarrow> getSubstitution matched preceding following repl = repl"
  by (induction matched preceding following repl rule: getSubstitution.induct) auto

lemma js_replace_absent: "c \<notin> set s \<Longrightarrow> js_replace s (c # pat) repl = s"
  by (simp add: js_replace_def indexOf_absent)

lemma js_replace_first:
  assumes "c \<notin> set a" and "CHR ''$'' \<notin> set repl"
  shows "js_replace (a @ c # pat @ b) (c # pat) repl = a @ repl @ b"
  using assms by (simp add: js_replace_def indexOf_first getSubstitution_plain)

lemma substituteTokens_plain:
  "CHR ''Y'' \<notin> set p \<Longrightarrow> substituteTokens year month (p @ x) = p @ substituteTokens year month x"
  by (induction p) auto

lemma substituteTokens_year:
  "take 3 x \<noteq> ''-MM'' \<Longrightarrow>
     substituteTokens year month (''YYYY'' @ x) = year @ substituteTokens year month x"
  by simp

lemma substituteTokens_year_month:
  "substituteTokens year month (''YYYY-MM'' @ x) = year @ ''-'' @ month @ substituteTokens year month x"
  by simp

lemma take3_before_token:
  assumes "take 3 q \<noteq> ''-MM''"
  shows "take 3 (q @ CHR ''Y'' # z) \<noteq> ''-MM''"
proof (cases "3 \<le> length q")
  case True
  with assms(1) show ?thesis by simp
next
  case False
  then have short: "length q < 3" by simp
  show ?thesis
  proof
    assume eq: "take 3 (q @ CHR ''Y'' # z) = ''-MM''"
    from short have "take 3 (q @ CHR ''Y'' # z) ! length q = CHR ''Y''"
      by (simp add: nth_append)
    with eq have at: "''-MM'' ! length q = CHR ''Y''" by simp
    from short consider "length q = 0" | "length q = Suc 0" | "length q = Suc (Suc 0)"
      by arith
    then show False using at by cases simp_all
  qed
qed

lemma digits_of_name:
  assumes "set (take 8 filename) \<subseteq> set ''0123456789''"
  shows "set (take 4 filename) \<subseteq> set ''0123456789''"
    and "set (take 2 (drop 4 filename)) \<subseteq> set ''0123456789''"
proof -
  have "set (take 4 filename) \<subseteq> set (take 8 filename)"
    by (rule set_take_subset_set_take) simp
  then show "set (take 4 filename) \<subseteq> set ''0123456789''"
    using assms by (rule subset_trans)
  have "take 2 (drop 4 filename) = drop 4 (take 6 filename)"
    by (simp add: drop_take)
  then have "set (take 2 (drop 4 filename)) \<subseteq> set (take 6 filename)"
    by (simp add: set_drop_subset)
  also have "\<dots> \<subseteq> set (take 8 filename)"
    by (rule set_take_subset_set_take) simp
  finally show "set (take 2 (drop 4 filename)) \<subseteq> set ''0123456789''"
    using assms by (rule subset_trans)
qed

lemma split_path_nonempty: "split_path s \<noteq> []"
  by (induction s) (auto split: list.splits)

lemma split_path_append: "split_path (a @ CHR ''/'' # b) = split_path a @ split_path b"
proof (induction a)
  case Nil
  show ?case by simp
next
  case (Cons c a)
  show ?case
  proof (cases "c = CHR ''/''")
    case True
    with Cons show ?thesis by simp
  next
    case False
    obtain seg segs where split: "split_path a = seg # segs"
      using split_path_nonempty [of a] by (cases "split_path a") auto
    with Cons False show ?thesis by simp
  qed
qed

lemma join_with_Cons: "join_with sep ((c # seg) # segs) = c # join_with sep (seg # segs)"
  by (cases segs) simp_all

lemma join_split_path: "join_with ''/'' (split_path s) = s"
proof (induction s)
  case Nil
  show ?case by simp
next
  case (Cons c s)
  obtain seg segs where split: "split_path s = seg # segs"
    using split_path_nonempty [of s] by (cases "split_path s") auto
  show ?case
  proof (cases "c = CHR ''/''")
    case True
    with Cons split show ?thesis by simp
  next
    case False
    with Cons split show ?thesis by (simp add: join_with_Cons)
  qed
qed

lemma normalizeSegments_plain:
  assumes "\<forall>seg \<in> set segs. seg \<noteq> [] \<and> seg \<noteq> ''.'' \<and> seg \<noteq> ''..''"
  shows "normalizeSegments allowAboveRoot res segs = rev res @ segs"
  using assms by (induction segs arbitrary: res) simp_all

lemma trailing_slash_segment:
  assumes "t \<noteq> []" and "last t = CHR ''/''"
  shows "[] \<in> set (split_path t)"
proof -
  from assms have "t = butlast t @ CHR ''/'' # []"
    by (metis append_butlast_last_id)
  then have "split_path t = split_path (butlast t) @ split_path []"
    using split_path_append [of "butlast t" "[]"] by simp
  then show ?thesis by simp
qed

lemma path_join_plain:
  assumes plain_segments: "set (split_path t) \<inter> {[], ''.'', ''..''} = {}"
  shows "path_join [''Chronological'', ''Email'', t] = ''Chronological/Email/'' @ t"
proof -
  let ?p = "''Chronological/Email/'' @ t"
  from plain_segments have "split_path t \<noteq> [[]]" by auto
  then have "t \<noteq> []" by auto
  moreover from plain_segments
  have "\<forall>seg \<in> set (split_path t). seg \<noteq> [] \<and> seg \<noteq> ''.'' \<and> seg \<noteq> ''..''"
    by auto
  ultimately have assms: "t \<noteq> []"
    "\<forall>seg \<in> set (split_path t). seg \<noteq> [] \<and> seg \<noteq> ''.'' \<and> seg \<noteq> ''..''"
    by blast+
  have joined: "join_with ''/'' (filter (\<lambda>a. a \<noteq> []) [''Chronological'', ''Email'', t]) = ?p"
    using assms(1) by simp
  have "split_path ?p = split_path ''Chronological'' @ split_path (''Email/'' @ t)"
    using split_path_append [of "''Chronological''" "''Email/'' @ t"] by simp
  also have "split_path (''Email/'' @ t) = split_path ''Email'' @ split_path t"
    using split_path_append [of "''Email''" t] by simp
  finally have segments: "split_path ?p = [''Chronological'', ''Email''] @ split_path t"
    by simp
  with assms(2) have plain: "\<forall>seg \<in> set (split_path ?p). seg \<noteq> [] \<and> seg \<noteq> ''.'' \<and> seg \<noteq> ''..''"
    by auto
  have body: "join_with ''/'' (normalizeSegments True [] (split_path ?p)) = ?p"
    using normalizeSegments_plain [OF plain, of True "[]"] join_split_path [of ?p] by simp
  from assms have "last t \<noteq> CHR ''/''"
    using trailing_slash_segment [of t] by blast
  with assms(1) have no_trailing: "last ?p \<noteq> CHR ''/''" by simp
  have relative: "hd ?p \<noteq> CHR ''/''" by simp
  have "path_normalize ?p = ?p"
    unfolding path_normalize_def Let_def using body no_trailing relative by simp
  with joined show ?thesis
    by (simp add: path_join_def Let_def del: join_with.simps filter.simps)
qed


text \<open>
  Templates on which the tokens are substituted as specified. Take a file name that
  begins with eight digits and a template whose segments between the \<open>/\<close> are not empty
  and are not \<open>.\<close> or \<open>..\<close>, which \<open>path.join\<close> leaves as it is after
  \<open>Chronological/Email/\<close>. When the template has no token, or one token \<open>YYYY\<close>, or one
  token \<open>YYYY\<close> and after it one token \<open>YYYY-MM\<close> (the texts \<open>p\<close>, \<open>q\<close>, \<open>r\<close> around them
  have no letter Y, and \<open>YYYY\<close> is not followed by \<open>-MM\<close>), the subfolder is
  \<open>Chronological/Email/\<close> followed by the template with the year in place of \<open>YYYY\<close> and
  the year and the month in place of \<open>YYYY-MM\<close>. This covers the template
  \<open>YYYY/YYYY-MM\<close> of the settings; it is not all the templates on which the code does so.
\<close>

theorem resolveSubfolder_tokens:
  assumes "8 \<le> length filename" and "set (take 8 filename) \<subseteq> set ''0123456789''"
    and "subfolderStructure \<in> {p, p @ ''YYYY'' @ q, p @ ''YYYY'' @ q @ ''YYYY-MM'' @ r}"
    and "CHR ''Y'' \<notin> set p \<union> set q \<union> set r"
    and "take 3 q \<noteq> ''-MM''"
    and "set (split_path subfolderStructure) \<inter> {[], ''.'', ''..''} = {}"
  shows "resolveSubfolder subfolderStructure filename
           = Some (''Chronological/Email/''
                   @ substituteTokens (take 4 filename) (take 2 (drop 4 filename))
                       subfolderStructure)"
proof -
  define year where "year = take 4 filename"
  define month where "month = take 2 (drop 4 filename)"
  define pre where "pre = ''Chronological/Email/'' @ p"
  from digits_of_name [OF assms(2)]
  have year: "set year \<subseteq> set ''0123456789''" and month: "set month \<subseteq> set ''0123456789''"
    by (simp_all only: year_def month_def)
  from year have year_plain: "CHR ''$'' \<notin> set year" and year_noY: "CHR ''Y'' \<notin> set year"
    by auto
  from year month have ym_plain: "CHR ''$'' \<notin> set (year @ ''-'' @ month)"
    by auto
  from assms(4) have pre_noY: "CHR ''Y'' \<notin> set pre"
    by (simp add: pre_def)
  from assms(4) have p: "CHR ''Y'' \<notin> set p" and q: "CHR ''Y'' \<notin> set q" and r: "CHR ''Y'' \<notin> set r"
    by simp_all
  have resolved: "resolveSubfolder subfolderStructure filename
      = Some (js_replace (js_replace (''Chronological/Email/'' @ subfolderStructure) ''YYYY'' year)
                ''YYYY-MM'' (year @ ''-'' @ month))"
    by (simp add: resolveSubfolder_def dateMatch_digits [OF assms(1,2)]
          path_join_plain [OF assms(6)] year_def month_def)
  from assms(3) consider
      (plain) "subfolderStructure = p"
    | (year) "subfolderStructure = p @ ''YYYY'' @ q"
    | (both) "subfolderStructure = p @ ''YYYY'' @ q @ ''YYYY-MM'' @ r"
    by blast
  then have "js_replace (js_replace (''Chronological/Email/'' @ subfolderStructure) ''YYYY'' year)
                ''YYYY-MM'' (year @ ''-'' @ month)
             = ''Chronological/Email/'' @ substituteTokens year month subfolderStructure"
  proof cases
    case plain
    have "js_replace (pre) ''YYYY'' year = pre"
      using js_replace_absent [OF pre_noY, of "''YYY''" year] by simp
    moreover have "js_replace (pre) ''YYYY-MM'' (year @ ''-'' @ month) = pre"
      using js_replace_absent [OF pre_noY, of "''YYY-MM''" "year @ ''-'' @ month"] by simp
    moreover have "substituteTokens year month p = p"
      using substituteTokens_plain [OF p, of year month "[]"] by simp
    ultimately show ?thesis
      using plain by (simp add: pre_def)
  next
    case year
    have first: "js_replace (pre @ ''YYYY'' @ q) ''YYYY'' year = pre @ year @ q"
      using js_replace_first [OF pre_noY year_plain, of "''YYY''" q] by simp
    have "CHR ''Y'' \<notin> set (pre @ year @ q)"
      using pre_noY year_noY q by simp
    from js_replace_absent [OF this, of "''YYY-MM''" "year @ ''-'' @ month"]
    have second: "js_replace (pre @ year @ q) ''YYYY-MM'' (year @ ''-'' @ month) = pre @ year @ q"
      by simp
    have "substituteTokens year month q = q"
      using substituteTokens_plain [OF q, of year month "[]"] by simp
    then have "substituteTokens year month (p @ ''YYYY'' @ q) = p @ year @ q"
      using substituteTokens_plain [OF p, of year month "''YYYY'' @ q"]
        substituteTokens_year [OF assms(5), of year month]
      by simp
    with first second show ?thesis
      using \<open>subfolderStructure = p @ ''YYYY'' @ q\<close> by (simp add: pre_def)
  next
    case both
    have first: "js_replace (pre @ ''YYYY'' @ q @ ''YYYY-MM'' @ r) ''YYYY'' year
                   = pre @ year @ q @ ''YYYY-MM'' @ r"
      using js_replace_first [OF pre_noY year_plain, of "''YYY''" "q @ ''YYYY-MM'' @ r"] by simp
    have "CHR ''Y'' \<notin> set (pre @ year @ q)"
      using pre_noY year_noY q by simp
    from js_replace_first [OF this ym_plain, of "''YYY-MM''" r]
    have second: "js_replace (pre @ year @ q @ ''YYYY-MM'' @ r) ''YYYY-MM'' (year @ ''-'' @ month)
                    = pre @ year @ q @ year @ ''-'' @ month @ r"
      by simp
    have tail: "substituteTokens year month r = r"
      using substituteTokens_plain [OF r, of year month "[]"] by simp
    have "take 3 (q @ ''YYYY-MM'' @ r) \<noteq> ''-MM''"
      using take3_before_token [OF assms(5), of "''YYY-MM'' @ r"] by simp
    from substituteTokens_year [OF this, of year month]
    have "substituteTokens year month (''YYYY'' @ q @ ''YYYY-MM'' @ r)
            = year @ q @ year @ ''-'' @ month @ r"
      using substituteTokens_plain [OF q, of year month "''YYYY-MM'' @ r"]
        substituteTokens_year_month [of year month r] tail
      by simp
    then have "substituteTokens year month (p @ ''YYYY'' @ q @ ''YYYY-MM'' @ r)
                 = p @ year @ q @ year @ ''-'' @ month @ r"
      using substituteTokens_plain [OF p, of year month "''YYYY'' @ q @ ''YYYY-MM'' @ r"]
      by simp
    with first second show ?thesis
      using both by (simp add: pre_def)
  qed
  with resolved show ?thesis
    by (simp add: year_def month_def)
qed


theorem resolveSubfolder_tokens_witness:
  "8 \<le> length ''20240315_101500 - a@b.com -- Hi.htm''
   \<and> set (take 8 ''20240315_101500 - a@b.com -- Hi.htm'') \<subseteq> set ''0123456789''
   \<and> set (split_path ''YYYY/YYYY-MM'') \<inter> {[], ''.'', ''..''} = {}
   \<and> resolveSubfolder ''YYYY/YYYY-MM'' ''20240315_101500 - a@b.com -- Hi.htm''
       = Some ''Chronological/Email/2024/2024-03''
   \<and> resolveSubfolder ''YYYY'' ''20240315_101500 - a@b.com -- Hi.htm''
       = Some ''Chronological/Email/2024''
   \<and> resolveSubfolder ''Inbox'' ''20240315_101500 - a@b.com -- Hi.htm''
       = Some ''Chronological/Email/Inbox''"
proof -
  let ?name = "''20240315_101500 - a@b.com -- Hi.htm''"
  have len: "8 \<le> length ?name" by simp
  have digs: "set (take 8 ?name) \<subseteq> set ''0123456789''"
    by simp
  have both: "''YYYY/YYYY-MM'' \<in> {[], [] @ ''YYYY'' @ ''/'', [] @ ''YYYY'' @ ''/'' @ ''YYYY-MM'' @ []}"
    by simp
  have year: "''YYYY'' \<in> {[], [] @ ''YYYY'' @ [], [] @ ''YYYY'' @ [] @ ''YYYY-MM'' @ []}"
    by simp
  have plain: "''Inbox'' \<in> {''Inbox'', ''Inbox'' @ ''YYYY'' @ [], ''Inbox'' @ ''YYYY'' @ [] @ ''YYYY-MM'' @ []}"
    by simp
  have noY: "CHR ''Y'' \<notin> set [] \<union> set ''/'' \<union> set []"
    and noY': "CHR ''Y'' \<notin> set [] \<union> set [] \<union> set []"
    and noY'': "CHR ''Y'' \<notin> set ''Inbox'' \<union> set [] \<union> set []" by simp_all
  have q: "take 3 ''/'' \<noteq> ''-MM''" and q': "take 3 [] \<noteq> ''-MM''" by simp_all
  have joined: "set (split_path ''YYYY/YYYY-MM'') \<inter> {[], ''.'', ''..''} = {}"
    by simp
  have joined': "set (split_path ''YYYY'') \<inter> {[], ''.'', ''..''} = {}"
    by simp
  have joined'': "set (split_path ''Inbox'') \<inter> {[], ''.'', ''..''} = {}"
    by simp
  have spec: "''Chronological/Email/''
                @ substituteTokens (take 4 ?name) (take 2 (drop 4 ?name)) ''YYYY/YYYY-MM''
              = ''Chronological/Email/2024/2024-03''"
    by code_simp
  have spec': "''Chronological/Email/''
                @ substituteTokens (take 4 ?name) (take 2 (drop 4 ?name)) ''YYYY''
              = ''Chronological/Email/2024''"
    by code_simp
  have spec'': "''Chronological/Email/''
                @ substituteTokens (take 4 ?name) (take 2 (drop 4 ?name)) ''Inbox''
              = ''Chronological/Email/Inbox''"
    by code_simp
  from resolveSubfolder_tokens [OF len digs both noY q joined]
  have r: "resolveSubfolder ''YYYY/YYYY-MM'' ?name = Some ''Chronological/Email/2024/2024-03''"
    unfolding spec .
  from resolveSubfolder_tokens [OF len digs year noY' q' joined']
  have r': "resolveSubfolder ''YYYY'' ?name = Some ''Chronological/Email/2024''"
    unfolding spec' .
  from resolveSubfolder_tokens [OF len digs plain noY'' q' joined'']
  have r'': "resolveSubfolder ''Inbox'' ?name = Some ''Chronological/Email/Inbox''"
    unfolding spec'' .
  from len digs joined r r' r'' show ?thesis by blast
qed

text \<open>
  Claim C3 on the code. On the template \<open>YYYY-MM\<close> the year is put in place of the first
  four letters, which leaves \<open>2024-MM\<close>: the replacement written for the token \<open>YYYY-MM\<close>
  finds nothing to replace, and the month is lost. The same happens to \<open>Mail/YYYY-MM\<close>.
  The specification gives \<open>2024-03\<close> there. On the template \<open>YYYY/YYYY-MM\<close> the code gives
  what the specification says.
\<close>

theorem resolveSubfolder_lone_year_month:
  "resolveSubfolder ''YYYY-MM'' ''20240315_101500 - a@b.com -- Hi.htm''
     = Some ''Chronological/Email/2024-MM''
   \<and> ''Chronological/Email/'' @ substituteTokens ''2024'' ''03'' ''YYYY-MM''
     = ''Chronological/Email/2024-03''
   \<and> resolveSubfolder ''Mail/YYYY-MM'' ''20240315_101500 - a@b.com -- Hi.htm''
     = Some ''Chronological/Email/Mail/2024-MM''
   \<and> resolveSubfolder ''YYYY/YYYY-MM'' ''20240315_101500 - a@b.com -- Hi.htm''
     = Some ''Chronological/Email/2024/2024-03''"
  by code_simp


section \<open>Properties of the message functions\<close>

subsection \<open>The sender\<close>





















subsection \<open>A date that cannot be parsed\<close>

lemma fetchEmailContent_dated:
  assumes "messages_get_full service messageId = Inr pl"
    and "extractDate rt (case headers pl of None \<Rightarrow> [] | Some l \<Rightarrow> l) = Inr isoDate"
  shows "fetchEmailContent rt service messageId
           = Inr \<lparr> HtmlBody = Some (fst (extractBodies (decodeBase64 rt) pl)),
                   TextBody = Some (snd (extractBodies (decodeBase64 rt) pl)),
                   sender = Some (extractSender (case headers pl of None \<Rightarrow> [] | Some l \<Rightarrow> l)),
                   date = Some isoDate \<rparr>"
  using assms by (simp add: fetchEmailContent_def Let_def split: prod.splits)

text \<open>
  Claim C9. For a message delivered by the service: when it has a \<open>Date\<close> header whose
  value is not a date, \<open>fetchEmailContent\<close> throws the range error of \<open>toISOString\<close>, and
  the command gets the error and chooses no date; when it has no \<open>Date\<close> header the record
  has the empty date and the command takes the current time; when the header holds a date
  the record has that date in ISO form, and the command takes the date parsed from that
  form, not the current time (an ISO form is never the empty string).
\<close>

theorem fetchEmailContent_invalid_date:
  assumes "messages_get_full service messageId = Inr pl"
    and "hs = (case headers pl of None \<Rightarrow> [] | Some l \<Rightarrow> l)"
  shows "(\<forall>dateHeader. find (\<lambda>h. toLowerCase (name h) = ''date'') hs = Some dateHeader
             \<and> parseDate rt (value dateHeader) = None
           \<longrightarrow> fetchEmailContent rt service messageId = Inl (RangeError ''Invalid time value'')
               \<and> fetchEmailDate rt now service messageId
                   = Inl (RangeError ''Invalid time value''))
       \<and> (find (\<lambda>h. toLowerCase (name h) = ''date'') hs = None
           \<longrightarrow> (\<exists>email. fetchEmailContent rt service messageId = Inr email
                  \<and> date email = Some [] \<and> emailDate rt now email = Some now)
               \<and> fetchEmailDate rt now service messageId = Inr (Some now))
       \<and> (\<forall>dateHeader t. find (\<lambda>h. toLowerCase (name h) = ''date'') hs = Some dateHeader
             \<and> parseDate rt (value dateHeader) = Some t
           \<longrightarrow> (\<exists>email. fetchEmailContent rt service messageId = Inr email
                  \<and> date email = Some (toISOString rt t)))
       \<and> (\<forall>dateHeader t. find (\<lambda>h. toLowerCase (name h) = ''date'') hs = Some dateHeader
             \<and> parseDate rt (value dateHeader) = Some t \<and> toISOString rt t \<noteq> []
           \<longrightarrow> (\<exists>email. fetchEmailContent rt service messageId = Inr email
                  \<and> emailDate rt now email = parseDate rt (toISOString rt t))
               \<and> fetchEmailDate rt now service messageId
                   = Inr (parseDate rt (toISOString rt t)))"
proof (intro conjI allI impI)
  fix dateHeader
  assume a: "find (\<lambda>h. toLowerCase (name h) = ''date'') hs = Some dateHeader
             \<and> parseDate rt (value dateHeader) = None"
  with assms show thrown: "fetchEmailContent rt service messageId = Inl (RangeError ''Invalid time value'')"
    by (simp add: fetchEmailContent_def extractDate_def Let_def)
  then show "fetchEmailDate rt now service messageId = Inl (RangeError ''Invalid time value'')"
    by (simp add: fetchEmailDate_def)
next
  assume a: "find (\<lambda>h. toLowerCase (name h) = ''date'') hs = None"
  with assms have "extractDate rt (case headers pl of None \<Rightarrow> [] | Some l \<Rightarrow> l) = Inr []"
    by (simp add: extractDate_def)
  from fetchEmailContent_dated [OF assms(1) this]
  obtain email where e: "fetchEmailContent rt service messageId = Inr email"
      and d: "date email = Some []"
    by simp
  then have f: "emailDate rt now email = Some now"
    by (simp add: emailDate_def truthy_def)
  with e d show "\<exists>email. fetchEmailContent rt service messageId = Inr email
                  \<and> date email = Some [] \<and> emailDate rt now email = Some now"
    by blast
  from e f show "fetchEmailDate rt now service messageId = Inr (Some now)"
    by (simp add: fetchEmailDate_def)
next
  fix dateHeader t
  assume a: "find (\<lambda>h. toLowerCase (name h) = ''date'') hs = Some dateHeader
             \<and> parseDate rt (value dateHeader) = Some t"
  with assms have "extractDate rt (case headers pl of None \<Rightarrow> [] | Some l \<Rightarrow> l)
                     = Inr (toISOString rt t)"
    by (simp add: extractDate_def)
  from fetchEmailContent_dated [OF assms(1) this]
  show "\<exists>email. fetchEmailContent rt service messageId = Inr email
                  \<and> date email = Some (toISOString rt t)"
    by simp
next
  fix dateHeader t
  assume a: "find (\<lambda>h. toLowerCase (name h) = ''date'') hs = Some dateHeader
             \<and> parseDate rt (value dateHeader) = Some t \<and> toISOString rt t \<noteq> []"
  with assms have "extractDate rt (case headers pl of None \<Rightarrow> [] | Some l \<Rightarrow> l)
                     = Inr (toISOString rt t)"
    by (simp add: extractDate_def)
  from fetchEmailContent_dated [OF assms(1) this]
  obtain email where e: "fetchEmailContent rt service messageId = Inr email"
      and d: "date email = Some (toISOString rt t)"
    by simp
  with a have f: "emailDate rt now email = parseDate rt (toISOString rt t)"
    by (simp add: emailDate_def truthy_def)
  with e show "\<exists>email. fetchEmailContent rt service messageId = Inr email
                  \<and> emailDate rt now email = parseDate rt (toISOString rt t)"
    by blast
  from e f show "fetchEmailDate rt now service messageId = Inr (parseDate rt (toISOString rt t))"
    by (simp add: fetchEmailDate_def)
qed

theorem fetchEmailContent_invalid_date_witness:
  "parseDate sample_runtime ''yesterday'' = None
   \<and> fetchEmailContent sample_runtime sample_service ''m1''
       = Inl (RangeError ''Invalid time value'')
   \<and> fetchEmailDate sample_runtime ''2026-11-03'' sample_service ''m1''
       = Inl (RangeError ''Invalid time value'')
   \<and> fetchEmailContent sample_runtime sample_service ''m2''
       = Inr \<lparr> HtmlBody = Some [], TextBody = Some ''hi'', sender = Some ''a@b.com'',
               date = Some ''2024-03-15T00:00:00.000Z'' \<rparr>
   \<and> fetchEmailDate sample_runtime ''2026-11-03'' sample_service ''m2'' = Inr (Some ''2024-03-15'')
   \<and> fetchEmailContent sample_runtime sample_service ''m3''
       = Inr \<lparr> HtmlBody = Some ''<b>hi</b>'', TextBody = Some [], sender = Some ''unknown'',
               date = Some [] \<rparr>
   \<and> fetchEmailDate sample_runtime ''2026-11-03'' sample_service ''m3'' = Inr (Some ''2026-11-03'')"
proof -
  have got: "messages_get_full sample_service ''m1'' = Inr sample_payload"
    by (simp add: sample_service_def)
  have found: "find (\<lambda>h. toLowerCase (name h) = ''date'')
                 (case headers sample_payload of None \<Rightarrow> [] | Some l \<Rightarrow> l)
                 = Some \<lparr> name = ''Date'', value = ''yesterday'' \<rparr>"
    by code_simp
  have invalid: "parseDate sample_runtime ''yesterday'' = None"
    by code_simp
  from fetchEmailContent_invalid_date [OF got refl, of sample_runtime "''2026-11-03''",
      THEN conjunct1, rule_format, of "\<lparr> name = ''Date'', value = ''yesterday'' \<rparr>"]
    found invalid
  have thrown: "fetchEmailContent sample_runtime sample_service ''m1''
                  = Inl (RangeError ''Invalid time value'')
                \<and> fetchEmailDate sample_runtime ''2026-11-03'' sample_service ''m1''
                  = Inl (RangeError ''Invalid time value'')"
    by simp
  have got2: "messages_get_full sample_service ''m2'' = Inr dated_payload"
    by (simp add: sample_service_def)
  have found2: "find (\<lambda>h. toLowerCase (name h) = ''date'')
                 (case headers dated_payload of None \<Rightarrow> [] | Some l \<Rightarrow> l)
                 = Some \<lparr> name = ''DATE'', value = ''2024-03-15'' \<rparr>"
    by code_simp
  have valid: "parseDate sample_runtime ''2024-03-15'' = Some ''2024-03-15''"
    by code_simp
  have iso: "toISOString sample_runtime ''2024-03-15'' = ''2024-03-15T00:00:00.000Z''"
    by (simp add: sample_runtime_def)
  have reparsed: "parseDate sample_runtime ''2024-03-15T00:00:00.000Z'' = Some ''2024-03-15''"
    by code_simp
  from fetchEmailContent_invalid_date [OF got2 refl, of sample_runtime "''2026-11-03''",
      THEN conjunct2, THEN conjunct2, THEN conjunct2, rule_format,
      of "\<lparr> name = ''DATE'', value = ''2024-03-15'' \<rparr>" "''2024-03-15''"]
    found2 valid iso reparsed
  have kept: "fetchEmailDate sample_runtime ''2026-11-03'' sample_service ''m2''
                = Inr (Some ''2024-03-15'')"
    by simp
  have got3: "messages_get_full sample_service ''m3'' = Inr undated_payload"
    by (simp add: sample_service_def)
  have found3: "find (\<lambda>h. toLowerCase (name h) = ''date'')
                 (case headers undated_payload of None \<Rightarrow> [] | Some l \<Rightarrow> l) = None"
    by code_simp
  from fetchEmailContent_invalid_date [OF got3 refl, of sample_runtime "''2026-11-03''",
      THEN conjunct2, THEN conjunct1] found3
  have fallback: "fetchEmailDate sample_runtime ''2026-11-03'' sample_service ''m3''
                    = Inr (Some ''2026-11-03'')"
    by simp
  have dated: "fetchEmailContent sample_runtime sample_service ''m2''
       = Inr \<lparr> HtmlBody = Some [], TextBody = Some ''hi'', sender = Some ''a@b.com'',
               date = Some ''2024-03-15T00:00:00.000Z'' \<rparr>"
    by code_simp
  have undated: "fetchEmailContent sample_runtime sample_service ''m3''
       = Inr \<lparr> HtmlBody = Some ''<b>hi</b>'', TextBody = Some [], sender = Some ''unknown'',
               date = Some [] \<rparr>"
    by code_simp
  from invalid thrown kept fallback dated undated show ?thesis by blast
qed

subsection \<open>The bodies\<close>

lemma find_append:
  "find P (xs @ ys) = (case find P xs of None \<Rightarrow> find P ys | Some x \<Rightarrow> Some x)"
  by (induction xs) simp_all

lemma extractBodyFromParts_none:
  "firstPartOfType mt ps = None \<Longrightarrow> extractBodyFromParts decode ps mt = []"
  unfolding firstPartOfType_def
proof (induction decode ps mt rule: extractBodyFromParts.induct)
  case (1 decode mt)
  show ?case by simp
next
  case (2 decode m d ps mt)
  then show ?case by (auto split: if_splits)
next
  case (3 decode m d qs ps mt)
  from "3.prems" have differs: "m \<noteq> mt"
    and inner: "find (\<lambda>p. part_mimeType p = mt) (partsInOrder qs) = None"
    and rest: "find (\<lambda>p. part_mimeType p = mt) (partsInOrder ps) = None"
    by (auto simp: find_append split: if_splits option.splits)
  from "3.IH"(1) [OF differs inner] have nested: "extractBodyFromParts decode qs mt = []" .
  from "3.IH"(2) [OF differs refl _ rest] nested
  have "extractBodyFromParts decode ps mt = []" by simp
  with differs nested show ?case by simp
qed

lemma extractBodyFromParts_nonempty:
  "firstPartOfType mt ps = Some p \<Longrightarrow> decodeData decode (part_data p) \<noteq> []
     \<Longrightarrow> extractBodyFromParts decode ps mt = decodeData decode (part_data p)"
  unfolding firstPartOfType_def
proof (induction decode ps mt rule: extractBodyFromParts.induct)
  case (1 decode mt)
  then show ?case by simp
next
  case (2 decode m d ps mt)
  then show ?case by (auto split: if_splits)
next
  case (3 decode m d qs ps mt)
  show ?case
  proof (cases "m = mt")
    case True
    with 3 show ?thesis by auto
  next
    case False
    show ?thesis
    proof (cases "find (\<lambda>p. part_mimeType p = mt) (partsInOrder qs)")
      case None
      then have "extractBodyFromParts decode qs mt = []"
        using extractBodyFromParts_none [of mt qs decode] by (simp add: firstPartOfType_def)
      moreover from None False "3.prems"
      have "find (\<lambda>p. part_mimeType p = mt) (partsInOrder ps) = Some p"
        by (simp add: find_append)
      ultimately show ?thesis
        using False "3.IH"(2) "3.prems"(2) by simp
    next
      case (Some p')
      with False "3.prems" have "p' = p" by (simp add: find_append)
      with Some False "3.IH"(1) "3.prems"(2) show ?thesis by simp
    qed
  qed
qed

lemma extractBodyFromParts_top:
  assumes "firstPartOfType mt pre = None" and "part_mimeType p = mt"
  shows "extractBodyFromParts decode (pre @ p # post) mt = decodeData decode (part_data p)"
  using assms(1)
proof (induction pre)
  case Nil
  show ?case
  proof (cases p)
    case (Part m d sub)
    with assms(2) show ?thesis by (cases sub) simp_all
  qed
next
  case (Cons x pre)
  show ?case
  proof (cases x)
    case (Part m d sub)
    show ?thesis
    proof (cases sub)
      case None
      with Part Cons show ?thesis
        by (auto simp: firstPartOfType_def split: if_splits)
    next
      case (Some qs)
      with Part Cons.prems have differs: "m \<noteq> mt"
        and inner: "firstPartOfType mt qs = None" and rest: "firstPartOfType mt pre = None"
        by (auto simp: firstPartOfType_def find_append split: if_splits option.splits)
      from extractBodyFromParts_none [OF inner] Cons.IH [OF rest] differs Part Some
      show ?thesis by simp
    qed
  qed
qed

lemma extractBodies_top:
  "extractBodies decode pl
     = (extractBodyFromParts decode (topParts pl) ''text/html'',
        extractBodyFromParts decode (topParts pl) ''text/plain'')"
  by (simp add: extractBodies_def topParts_def split: option.splits)

lemma extractBodyFromParts_container:
  assumes "firstPartOfType mt pre = None" and "m \<noteq> mt"
  shows "extractBodyFromParts decode (pre @ Part m d (Some qs) # post) mt
           = (if extractBodyFromParts decode qs mt \<noteq> []
              then extractBodyFromParts decode qs mt
              else extractBodyFromParts decode post mt)"
  using assms(1)
proof (induction pre)
  case Nil
  from assms(2) show ?case by (simp add: Let_def)
next
  case (Cons x pre)
  show ?case
  proof (cases x)
    case (Part m' d' sub)
    show ?thesis
    proof (cases sub)
      case None
      with Part Cons show ?thesis
        by (auto simp: firstPartOfType_def split: if_splits)
    next
      case (Some qs')
      with Part Cons.prems have differs: "m' \<noteq> mt"
        and inner: "firstPartOfType mt qs' = None" and rest: "firstPartOfType mt pre = None"
        by (auto simp: firstPartOfType_def find_append split: if_splits option.splits)
      from extractBodyFromParts_none [OF inner] Cons.IH [OF rest] differs Part Some
      show ?thesis by simp
    qed
  qed
qed

lemma extractBodyFromParts_single:
  "extractBodyFromParts decode ps mt = []
   \<or> (\<exists>p \<in> set (partsInOrder ps). part_mimeType p = mt
         \<and> extractBodyFromParts decode ps mt = decodeData decode (part_data p))"
proof (induction decode ps mt rule: extractBodyFromParts.induct)
  case (1 decode mt)
  show ?case by simp
next
  case (2 decode m d ps mt)
  show ?case
  proof (cases "m = mt")
    case True
    then show ?thesis by simp
  next
    case False
    with 2 show ?thesis by auto
  qed
next
  case (3 decode m d qs ps mt)
  show ?case
  proof (cases "m = mt")
    case True
    then show ?thesis by simp
  next
    case False
    note differs = this
    show ?thesis
    proof (cases "extractBodyFromParts decode qs mt = []")
      case True
      with "3.IH"(2) [OF differs refl] differs show ?thesis by auto
    next
      case False
      with "3.IH"(1) [OF differs] differs show ?thesis by auto
    qed
  qed
qed

text \<open>
  Claim C5, as amended. The HTML body is the result of the search for \<open>text/html\<close> in
  the parts at the top of the message, the text body that of the search for
  \<open>text/plain\<close>; a message without a \<open>parts\<close> array is the tree of its payload alone.
  For the search of a list of parts, taken in depth-first order: without a part of the
  type the result is empty. The result is the decoded content of the first part of the
  type when that content is not empty, and also when that part is in the list itself
  with no part of the type before it. When, with no part of the type before it, a
  container of another type comes first, the result is that of the search of the
  container if it is not empty, and that of the search after the container if it is: an
  empty result inside a container counts as no match. In every case the result is empty
  or the decoded content of one single part of the type: contents are never merged.
\<close>

theorem extractBodyFromParts_first_match:
  "extractBodies decode pl
     = (extractBodyFromParts decode (topParts pl) ''text/html'',
        extractBodyFromParts decode (topParts pl) ''text/plain'')
   \<and> (firstPartOfType mt ps = None \<longrightarrow> extractBodyFromParts decode ps mt = [])
   \<and> (\<forall>p. firstPartOfType mt ps = Some p \<and> decodeData decode (part_data p) \<noteq> []
         \<longrightarrow> extractBodyFromParts decode ps mt = decodeData decode (part_data p))
   \<and> (\<forall>pre p post. ps = pre @ p # post \<and> part_mimeType p = mt
           \<and> firstPartOfType mt pre = None
         \<longrightarrow> extractBodyFromParts decode ps mt = decodeData decode (part_data p))
   \<and> (\<forall>pre m d qs post. ps = pre @ Part m d (Some qs) # post \<and> m \<noteq> mt
           \<and> firstPartOfType mt pre = None
         \<longrightarrow> extractBodyFromParts decode ps mt
               = (if extractBodyFromParts decode qs mt \<noteq> []
                  then extractBodyFromParts decode qs mt
                  else extractBodyFromParts decode post mt))
   \<and> (extractBodyFromParts decode ps mt = []
        \<or> (\<exists>p \<in> set (partsInOrder ps). part_mimeType p = mt
              \<and> extractBodyFromParts decode ps mt = decodeData decode (part_data p)))"
proof (intro conjI allI impI)
  show "extractBodies decode pl
     = (extractBodyFromParts decode (topParts pl) ''text/html'',
        extractBodyFromParts decode (topParts pl) ''text/plain'')"
    by (rule extractBodies_top)
next
  assume "firstPartOfType mt ps = None"
  then show "extractBodyFromParts decode ps mt = []"
    by (rule extractBodyFromParts_none)
next
  fix p
  assume "firstPartOfType mt ps = Some p \<and> decodeData decode (part_data p) \<noteq> []"
  then show "extractBodyFromParts decode ps mt = decodeData decode (part_data p)"
    using extractBodyFromParts_nonempty by blast
next
  fix pre p post
  assume "ps = pre @ p # post \<and> part_mimeType p = mt \<and> firstPartOfType mt pre = None"
  then show "extractBodyFromParts decode ps mt = decodeData decode (part_data p)"
    using extractBodyFromParts_top by blast
next
  fix pre m d qs post
  assume "ps = pre @ Part m d (Some qs) # post \<and> m \<noteq> mt \<and> firstPartOfType mt pre = None"
  then show "extractBodyFromParts decode ps mt
               = (if extractBodyFromParts decode qs mt \<noteq> []
                  then extractBodyFromParts decode qs mt
                  else extractBodyFromParts decode post mt)"
    using extractBodyFromParts_container by blast
next
  show "extractBodyFromParts decode ps mt = []
        \<or> (\<exists>p \<in> set (partsInOrder ps). part_mimeType p = mt
              \<and> extractBodyFromParts decode ps mt = decodeData decode (part_data p))"
    by (rule extractBodyFromParts_single)
qed

theorem extractBodyFromParts_first_match_witness:
  "extractBodyFromParts base64_decode (topParts empty_html_first_payload) ''text/html''
     = ''<b>hi</b>''
   \<and> fst (extractBodies base64_decode empty_html_first_payload) = ''<b>hi</b>''
   \<and> extractBodies base64_decode alternative_payload = (''<b>hi</b>'', ''hi'')
   \<and> firstPartOfType ''text/html'' (topParts sample_payload) = None
   \<and> extractBodyFromParts base64_decode (topParts sample_payload) ''text/html'' = []"
proof -
  let ?empty = "Part ''text/html'' None None"
  let ?full = "Part ''text/html'' (Some ''PGI+aGk8L2I+'') None"
  let ?container = "Part ''multipart/alternative'' None (Some [?empty])"
  have top: "topParts empty_html_first_payload = [] @ ?container # [?full]"
    by (simp add: topParts_def empty_html_first_payload_def)
  have no_before: "firstPartOfType ''text/html'' [] = None"
    by (simp add: firstPartOfType_def)
  have differs: "''multipart/alternative'' \<noteq> ''text/html''" by simp
  have empty_content: "decodeData base64_decode (part_data ?empty) = []"
    by code_simp
  have full_content: "decodeData base64_decode (part_data ?full) = ''<b>hi</b>''"
    by code_simp
  from extractBodyFromParts_first_match [of base64_decode empty_html_first_payload
      "''text/html''" "[?empty]", THEN conjunct2, THEN conjunct2, THEN conjunct2, THEN conjunct1,
      rule_format, of "[]" ?empty "[]"] no_before empty_content
  have inner: "extractBodyFromParts base64_decode [?empty] ''text/html'' = []"
    by simp
  from extractBodyFromParts_first_match [of base64_decode empty_html_first_payload
      "''text/html''" "[?full]", THEN conjunct2, THEN conjunct2, THEN conjunct2, THEN conjunct1,
      rule_format, of "[]" ?full "[]"] no_before full_content
  have after: "extractBodyFromParts base64_decode [?full] ''text/html'' = ''<b>hi</b>''"
    by simp
  from extractBodyFromParts_first_match [of base64_decode empty_html_first_payload
      "''text/html''" "topParts empty_html_first_payload", THEN conjunct2, THEN conjunct2,
      THEN conjunct2, THEN conjunct2, THEN conjunct1, rule_format,
      of "[]" "''multipart/alternative''" None "[?empty]" "[?full]"]
    top no_before differs inner after
  have skipped: "extractBodyFromParts base64_decode (topParts empty_html_first_payload)
                   ''text/html'' = ''<b>hi</b>''"
    by simp
  from extractBodyFromParts_first_match [of base64_decode empty_html_first_payload
      "''text/html''" "[]", THEN conjunct1] skipped
  have html: "fst (extractBodies base64_decode empty_html_first_payload) = ''<b>hi</b>''"
    by simp
  have both: "extractBodies base64_decode alternative_payload = (''<b>hi</b>'', ''hi'')"
    by code_simp
  have none: "firstPartOfType ''text/html'' (topParts sample_payload) = None"
    by code_simp
  from extractBodyFromParts_first_match [of base64_decode sample_payload
      "''text/html''" "topParts sample_payload", THEN conjunct2, THEN conjunct1] none
  have absent: "extractBodyFromParts base64_decode (topParts sample_payload) ''text/html'' = []"
    by simp
  from skipped html both none absent show ?thesis by blast
qed

text \<open>
  Claim C5 as it was stated fails when the first HTML part in depth-first order is
  nested and decodes to the empty string: the search takes the empty result of the
  container for no match and goes on to the HTML part after the container.
\<close>

theorem extractBodies_skips_empty_nested_counterexample:
  "firstPartOfType ''text/html'' (topParts empty_html_first_payload)
     = Some (Part ''text/html'' None None)
   \<and> decodeData base64_decode (part_data (Part ''text/html'' None None)) = []
   \<and> fst (extractBodies base64_decode empty_html_first_payload) = ''<b>hi</b>''
   \<and> fst (extractBodies base64_decode empty_html_first_payload)
       \<noteq> decodeData base64_decode (part_data (Part ''text/html'' None None))"
  by code_simp

subsection \<open>The label query\<close>

lemma fetchSubjects_eq:
  "fetchSubjects service messageIds msgs
     = msgs @ map (\<lambda>messageId. (subjectOf (projr (messages_get_metadata service (the messageId))),
                                 the messageId))
                (filter (\<lambda>messageId. truthy messageId
                           \<and> \<not> isl (messages_get_metadata service (the messageId))) messageIds)"
proof (induction messageIds arbitrary: msgs)
  case Nil
  show ?case by simp
next
  case (Cons messageId messageIds)
  show ?case
  proof (cases "truthy messageId")
    case False
    then show ?thesis by (simp add: Cons.IH)
  next
    case True
    then show ?thesis
      by (cases "messages_get_metadata service (the messageId)") (simp_all add: Cons.IH)
  qed
qed

text \<open>
  Claim C6. \<open>fetchEmailsWithLabelSubjects\<close> always returns a list. The list is empty when
  the list query throws or its status is not 200. Otherwise it holds, in the order of
  the ids, the subject and the id of every id that is present and whose metadata request
  returned: a request that throws removes its own message only. A response without a
  list of messages gives the empty list.
\<close>

theorem fetchEmailsWithLabelSubjects_degrades:
  "(\<exists>msgs. fetchEmailsWithLabelSubjects service accountName = Inr msgs)
   \<and> (isl (messages_list service) \<longrightarrow> fetchEmailsWithLabelSubjects service accountName = Inr [])
   \<and> (\<forall>response. messages_list service = Inr response \<and> status response \<noteq> 200
        \<longrightarrow> fetchEmailsWithLabelSubjects service accountName = Inr [])
   \<and> (\<forall>response. messages_list service = Inr response \<and> messages response = None
        \<longrightarrow> fetchEmailsWithLabelSubjects service accountName = Inr [])
   \<and> (\<forall>response messageIds.
         messages_list service = Inr response \<and> status response = 200
         \<and> messages response = Some messageIds
        \<longrightarrow> fetchEmailsWithLabelSubjects service accountName
              = Inr (map (\<lambda>messageId.
                            (subjectOf (projr (messages_get_metadata service (the messageId))),
                             the messageId))
                       (filter (\<lambda>messageId. truthy messageId
                                  \<and> \<not> isl (messages_get_metadata service (the messageId)))
                          messageIds)))"
  by (cases "messages_list service")
     (auto simp: fetchEmailsWithLabelSubjects_def queryLabelledMessages_def fetchSubjects_eq Let_def)


theorem fetchEmailsWithLabelSubjects_degrades_witness:
  "fetchEmailsWithLabelSubjects sample_service ''account''
     = Inr [(''Hello'', ''m1''), (''No Subject'', ''m3'')]
   \<and> isl (messages_get_metadata sample_service ''m2'')
   \<and> fetchEmailsWithLabelSubjects
        (sample_service \<lparr> messages_list := Inl (Error ''Network Error'') \<rparr>) ''account'' = Inr []
   \<and> fetchEmailsWithLabelSubjects
        (sample_service \<lparr> messages_list := Inr \<lparr> status = 403, messages = None \<rparr> \<rparr>)
        ''account'' = Inr []"
proof -
  let ?response = "\<lparr> status = 200, messages = Some [Some ''m1'', Some ''m2'', None, Some ''m3''] \<rparr>"
  have listed: "messages_list sample_service = Inr ?response"
    by (simp add: sample_service_def)
  from fetchEmailsWithLabelSubjects_degrades [of sample_service "''account''",
      THEN conjunct2, THEN conjunct2, THEN conjunct2, THEN conjunct2, rule_format,
      of ?response "[Some ''m1'', Some ''m2'', None, Some ''m3'']"] listed
  have "fetchEmailsWithLabelSubjects sample_service ''account''
          = Inr (map (\<lambda>messageId.
                            (subjectOf (projr (messages_get_metadata sample_service (the messageId))),
                             the messageId))
                       (filter (\<lambda>messageId. truthy messageId
                                  \<and> \<not> isl (messages_get_metadata sample_service (the messageId)))
                          [Some ''m1'', Some ''m2'', None, Some ''m3'']))"
    by simp
  then have ok: "fetchEmailsWithLabelSubjects sample_service ''account''
     = Inr [(''Hello'', ''m1''), (''No Subject'', ''m3'')]
   \<and> isl (messages_get_metadata sample_service ''m2'')"
    by (simp add: sample_service_def truthy_def subjectOf_def)
  from fetchEmailsWithLabelSubjects_degrades
      [of "sample_service \<lparr> messages_list := Inl (Error ''Network Error'') \<rparr>" "''account''",
       THEN conjunct2, THEN conjunct1]
  have thrown: "fetchEmailsWithLabelSubjects
        (sample_service \<lparr> messages_list := Inl (Error ''Network Error'') \<rparr>) ''account'' = Inr []"
    by simp
  from fetchEmailsWithLabelSubjects_degrades
      [of "sample_service \<lparr> messages_list := Inr \<lparr> status = 403, messages = None \<rparr> \<rparr>"
        "''account''", THEN conjunct2, THEN conjunct2, THEN conjunct1, rule_format,
       of "\<lparr> status = 403, messages = None \<rparr>"]
  have refused: "fetchEmailsWithLabelSubjects
        (sample_service \<lparr> messages_list := Inr \<lparr> status = 403, messages = None \<rparr> \<rparr>)
        ''account'' = Inr []"
    by simp
  from ok thrown refused show ?thesis by blast
qed


section \<open>Properties of content preparation\<close>

lemma saveImagesLoop_requests:
  "snd (saveImagesLoop base64 net requests urls savePath base64ImageData) = requests @ urls"
proof (induction urls arbitrary: requests base64ImageData)
  case Nil
  show ?case by simp
next
  case (Cons url urls)
  show ?case
    by (simp add: fetchImageWithFallback_def Cons.IH)
qed

text \<open>
  Claim C7. Without a non-empty HTML body, a non-empty text body gives the text inside
  \<open><html><body><pre>\<close> and \<open></pre></body></html>\<close>, and no text body gives the page that
  says there is no content; neither makes a request. A request is made only for an
  email with a non-empty HTML body: then the body is the HTML with the replacements of
  the inlining path, after one request for each extracted URL.
\<close>

theorem prepareEmailContent_paths:
  "(\<not> truthy (HtmlBody email) \<and> TextBody email = Some text \<and> text \<noteq> []
      \<longrightarrow> prepareEmailContent base64 net requests email savePath
            = (''<html><body><pre>'' @ text @ ''</pre></body></html>'', requests))
   \<and> (\<not> truthy (HtmlBody email) \<and> \<not> truthy (TextBody email)
      \<longrightarrow> prepareEmailContent base64 net requests email savePath
            = (''<html><body><p>No content available.</p></body></html>'', requests))
   \<and> (snd (prepareEmailContent base64 net requests email savePath) \<noteq> requests
      \<longrightarrow> (\<exists>html. HtmlBody email = Some html \<and> html \<noteq> []))
   \<and> (\<forall>html. HtmlBody email = Some html \<and> html \<noteq> []
      \<longrightarrow> prepareEmailContent base64 net requests email savePath
            = (replaceImageUrlsWithBase64 html (extractImageUrls html)
                 (fst (saveImagesLocally base64 net requests (extractImageUrls html) savePath)),
               requests @ extractImageUrls html))"
proof (intro conjI allI impI)
  assume "\<not> truthy (HtmlBody email) \<and> TextBody email = Some text \<and> text \<noteq> []"
  then show "prepareEmailContent base64 net requests email savePath
            = (''<html><body><pre>'' @ text @ ''</pre></body></html>'', requests)"
    by (simp add: prepareEmailContent_def truthy_def)
next
  assume "\<not> truthy (HtmlBody email) \<and> \<not> truthy (TextBody email)"
  then show "prepareEmailContent base64 net requests email savePath
            = (''<html><body><p>No content available.</p></body></html>'', requests)"
    by (simp add: prepareEmailContent_def)
next
  assume "snd (prepareEmailContent base64 net requests email savePath) \<noteq> requests"
  then have "truthy (HtmlBody email)"
    by (auto simp: prepareEmailContent_def split: if_splits)
  then show "\<exists>html. HtmlBody email = Some html \<and> html \<noteq> []"
    by (simp add: truthy_def split: option.splits)
next
  fix html
  assume html: "HtmlBody email = Some html \<and> html \<noteq> []"
  obtain base64ImageData requests'
    where saved: "saveImagesLocally base64 net requests (extractImageUrls html) savePath
                    = (base64ImageData, requests')"
    by (cases "saveImagesLocally base64 net requests (extractImageUrls html) savePath")
  then have "requests' = requests @ extractImageUrls html"
    using saveImagesLoop_requests [of base64 net requests "extractImageUrls html" savePath "[]"]
    by (simp add: saveImagesLocally_def)
  with html saved show "prepareEmailContent base64 net requests email savePath
            = (replaceImageUrlsWithBase64 html (extractImageUrls html)
                 (fst (saveImagesLocally base64 net requests (extractImageUrls html) savePath)),
               requests @ extractImageUrls html)"
    by (simp add: prepareEmailContent_def truthy_def Let_def)
qed

theorem prepareEmailContent_paths_witness:
  "prepareEmailContent base64_encode offline []
      \<lparr> HtmlBody = Some [], TextBody = Some ''hello'', sender = None, date = None \<rparr> []
     = (''<html><body><pre>hello</pre></body></html>'', [])
   \<and> prepareEmailContent base64_encode offline []
      \<lparr> HtmlBody = Some [], TextBody = Some [], sender = None, date = None \<rparr> []
     = (''<html><body><p>No content available.</p></body></html>'', [])
   \<and> prepareEmailContent base64_encode offline []
      \<lparr> HtmlBody = Some two_images_html, TextBody = Some ''hello'', sender = None,
        date = None \<rparr> []
     = (''<img src='' @ [DQ] @ [DQ] @ ''><img src='' @ [DQ] @ [DQ] @ ''>'',
        [''http://x/1.png'', ''http://x/2.png''])"
proof -
  have text_only: "prepareEmailContent base64_encode offline []
      \<lparr> HtmlBody = Some [], TextBody = Some ''hello'', sender = None, date = None \<rparr> []
     = (''<html><body><pre>hello</pre></body></html>'', [])"
    using prepareEmailContent_paths
      [of "\<lparr> HtmlBody = Some [], TextBody = Some ''hello'', sender = None, date = None \<rparr>"
          "''hello''" base64_encode offline "[]" "[]"]
    by (simp add: truthy_def)
  have neither: "prepareEmailContent base64_encode offline []
      \<lparr> HtmlBody = Some [], TextBody = Some [], sender = None, date = None \<rparr> []
     = (''<html><body><p>No content available.</p></body></html>'', [])"
    using prepareEmailContent_paths
      [of "\<lparr> HtmlBody = Some [], TextBody = Some [], sender = None, date = None \<rparr>"
          "[]" base64_encode offline "[]" "[]"]
    by (simp add: truthy_def)
  have urls: "extractImageUrls two_images_html = [''http://x/1.png'', ''http://x/2.png'']"
    by code_simp
  have nonempty: "two_images_html \<noteq> []"
    by (simp add: two_images_html_def)
  have replaced: "replaceImageUrlsWithBase64 two_images_html [''http://x/1.png'', ''http://x/2.png'']
          (fst (saveImagesLocally base64_encode offline [] [''http://x/1.png'', ''http://x/2.png''] []))
        = ''<img src='' @ [DQ] @ [DQ] @ ''><img src='' @ [DQ] @ [DQ] @ ''>''"
    by code_simp
  from prepareEmailContent_paths
      [of "\<lparr> HtmlBody = Some two_images_html, TextBody = Some ''hello'', sender = None,
            date = None \<rparr>" "''hello''" base64_encode offline "[]" "[]",
       THEN conjunct2, THEN conjunct2, THEN conjunct2, rule_format, of two_images_html]
    nonempty
  have "prepareEmailContent base64_encode offline []
      \<lparr> HtmlBody = Some two_images_html, TextBody = Some ''hello'', sender = None,
        date = None \<rparr> []
     = (''<img src='' @ [DQ] @ [DQ] @ ''><img src='' @ [DQ] @ [DQ] @ ''>'',
        [''http://x/1.png'', ''http://x/2.png''])"
    unfolding urls replaced by simp
  with text_only neither show ?thesis by blast
qed

text \<open>
  Claim C1 on the code. The HTML body has two images; the first request fails and the
  second returns an image. \<open>saveImagesLocally\<close> keeps the one data URI only, at index 0,
  and \<open>replaceImageUrlsWithBase64\<close> looks the data up by the index of the URL: the first
  tag gets the data of the second image and the \<open>src\<close> of the second tag becomes empty.
\<close>

theorem inliner_shifts_data_after_failed_fetch:
  "extractImageUrls two_images_html = [''http://x/1.png'', ''http://x/2.png'']
   \<and> saveImagesLocally base64_encode first_request_fails []
        [''http://x/1.png'', ''http://x/2.png''] []
       = ([''data:image/png;base64,QUJD''], [''http://x/1.png'', ''http://x/2.png''])
   \<and> fst (prepareEmailContent base64_encode first_request_fails []
          \<lparr> HtmlBody = Some two_images_html, TextBody = Some [], sender = Some ''a@b.com'',
            date = Some [] \<rparr> [])
       = ''<img src='' @ [DQ] @ ''data:image/png;base64,QUJD'' @ [DQ] @ ''>''
         @ ''<img src='' @ [DQ] @ [DQ] @ ''>''"
  by code_simp

section \<open>Properties of \<open>getAuthClient\<close>\<close>

text \<open>
  Claim C4. Without a token, or with the empty token, \<open>getAuthClient\<close> returns nothing.
  With a non-empty token that \<open>JSON.parse\<close> rejects it returns the client that was built
  from the credentials, with no token stored in it. The only other way to nothing is the
  \<open>catch\<close> around the building of the client.
\<close>

theorem getAuthClient_token_cases:
  "(token = None \<or> token = Some [] \<longrightarrow> getAuthClient lib creds token = None)
   \<and> (\<forall>text err client.
         token = Some text \<and> text \<noteq> [] \<and> JSON_parse lib text = Inl err
         \<and> newOAuth2Client lib (client_id creds) (client_secret creds)
             (case redirect_uris creds of [] \<Rightarrow> None | uri # _ \<Rightarrow> Some uri) = Inr client
         \<longrightarrow> getAuthClient lib creds token = Some client)
   \<and> (\<forall>err.
         newOAuth2Client lib (client_id creds) (client_secret creds)
             (case redirect_uris creds of [] \<Rightarrow> None | uri # _ \<Rightarrow> Some uri) = Inl err
         \<longrightarrow> getAuthClient lib creds token = None)"
  by (auto simp: getAuthClient_def truthy_def)

theorem getAuthClient_token_cases_witness:
  "getAuthClient sample_library
     \<lparr> client_id = ''id'', client_secret = ''secret'', redirect_uris = [''http://127.0.0.1:42601''] \<rparr>
     (Some ''not a token'')
     = Some (''id'', ''secret'', Some ''http://127.0.0.1:42601'', None)
   \<and> JSON_parse sample_library ''not a token'' = Inl (SyntaxError ''Unexpected token'')
   \<and> getAuthClient sample_library
     \<lparr> client_id = ''id'', client_secret = ''secret'', redirect_uris = [''http://127.0.0.1:42601''] \<rparr>
     None = None"
  using getAuthClient_token_cases
    [of "Some ''not a token''" sample_library
      "\<lparr> client_id = ''id'', client_secret = ''secret'', redirect_uris = [''http://127.0.0.1:42601''] \<rparr>"]
    getAuthClient_token_cases
    [of None sample_library
      "\<lparr> client_id = ''id'', client_secret = ''secret'', redirect_uris = [''http://127.0.0.1:42601''] \<rparr>"]
  by (simp add: sample_library_def)

end
